theory Spec2Isabelle
  imports Complex_Main
begin

section \<open>Fractal tree generator: data model\<close>

text \<open>
  The program is a single React component (\<^verbatim>\<open>App.tsx\<close>). Its JavaScript numbers are
  modelled as follows: the quantities the program only ever sets to integers (the
  recursion depth, the grow speed and the grow index) are \<open>int\<close>; every other number
  (coordinates, lengths, angles, thickness, wind time) is a \<open>real\<close>, so IEEE rounding,
  NaN and the infinities are outside the model. In particular \<open>d / 0\<close> is \<open>0\<close> in HOL
  but an infinity or NaN in JavaScript: statements about a ratio \<open>depthLeft / totalDepth\<close>
  therefore carry \<open>totalDepth \<noteq> 0\<close>, which every built segment satisfies.

  \<^verbatim>\<open>Math.random()\<close> is modelled by a function \<open>rnd :: nat \<Rightarrow> real\<close>: \<open>rnd i\<close> is the value
  of the \<open>i\<close>-th call made during one build.
\<close>

datatype ThemeBG = night | sunset | snow

datatype ColorPreset = spring | autumn | winter | neon

record Settings =
  depth :: int
  angle :: real
  length_s :: real
  shrink :: real
  thickness :: real
  randomness :: real
  leafMode :: bool
  animateWind :: bool
  windStrength :: real
  windSpeed :: real
  growAnimation :: bool
  growSpeed :: int
  preset :: ColorPreset

record Segment =
  x1 :: real
  y1 :: real
  x2 :: real
  y2 :: real
  thick :: real
  depthLeft :: int
  totalDepth :: int

text \<open>\<^verbatim>\<open>clamp(n, min, max) = Math.max(min, Math.min(max, n))\<close>\<close>

definition clamp :: "'a::linorder \<Rightarrow> 'a \<Rightarrow> 'a \<Rightarrow> 'a" where
  "clamp n lo hi = max lo (min hi n)"

record Palette =
  trunk :: string
  branch :: string
  leaf :: string
  glow :: bool

text \<open>The \<^verbatim>\<open>default\<close> branch of the source's switch is unreachable for the four presets.\<close>

fun presetColors :: "ColorPreset \<Rightarrow> Palette" where
  "presetColors spring =
     \<lparr>trunk = ''#a16207'', branch = ''#16a34a'', leaf = ''#22c55e'', glow = False\<rparr>"
| "presetColors autumn =
     \<lparr>trunk = ''#92400e'', branch = ''#ea580c'', leaf = ''#f59e0b'', glow = False\<rparr>"
| "presetColors winter =
     \<lparr>trunk = ''#6b7280'', branch = ''#94a3b8'', leaf = ''#e5e7eb'', glow = False\<rparr>"
| "presetColors neon =
     \<lparr>trunk = ''#a855f7'', branch = ''#22d3ee'', leaf = ''#f472b6'', glow = True\<rparr>"

definition branchColor :: "Settings \<Rightarrow> int \<Rightarrow> int \<Rightarrow> string" where
  "branchColor settings dl td =
     (let ratio = real_of_int dl / real_of_int td;
          c = presetColors (preset settings)
      in if \<not> leafMode settings then branch c
         else if ratio > 0.55 then trunk c
         else if ratio > 0.25 then branch c
         else leaf c)"

text \<open>The wind sway angle; \<open>t\<close> is the current value of \<^verbatim>\<open>windTimeRef\<close>.\<close>

definition getWindAngle :: "Settings \<Rightarrow> real \<Rightarrow> int \<Rightarrow> int \<Rightarrow> real" where
  "getWindAngle settings t dl td =
     (if \<not> animateWind settings then 0
      else let leafFactor = 1 - real_of_int dl / real_of_int td;
               sway = windStrength settings * leafFactor
           in sin t * sway)"

section \<open>Geometry builder\<close>

text \<open>
  \<^verbatim>\<open>collect\<close> pushes onto \<^verbatim>\<open>segmentsRef.current\<close> and draws one random number per
  segment; its state is the segment array together with the number of random draws made
  so far. The first argument after the random source is the captured \<^verbatim>\<open>totalDepth\<close>.
\<close>

definition randomAngle :: "Settings \<Rightarrow> real \<Rightarrow> real" where
  "randomAngle settings r = (r * 2 - 1) * randomness settings"

function collect ::
  "Settings \<Rightarrow> (nat \<Rightarrow> real) \<Rightarrow> int \<Rightarrow> real \<Rightarrow> real \<Rightarrow> real \<Rightarrow> real \<Rightarrow> int \<Rightarrow> real
     \<Rightarrow> Segment list \<times> nat \<Rightarrow> Segment list \<times> nat" where
  "collect settings rnd td x y len angleDeg dl th (segs, n) =
     (if dl \<le> 0 \<or> len < 2 then (segs, n)
      else
        let a = ((angleDeg + randomAngle settings (rnd n)) * pi) / 180;
            ex = x + len * cos a;
            ey = y - len * sin a;
            pushed = (segs @ [\<lparr>x1 = x, y1 = y, x2 = ex, y2 = ey, thick = th,
                               depthLeft = dl, totalDepth = td\<rparr>], Suc n);
            newLen = len * shrink settings;
            newThick = th * 0.75;
            left = collect settings rnd td ex ey newLen (angleDeg - angle settings)
                     (dl - 1) newThick pushed
        in collect settings rnd td ex ey newLen (angleDeg + angle settings)
             (dl - 1) newThick left)"
  by pat_completeness auto
termination
  by (relation "measure (\<lambda>(settings, rnd, td, x, y, len, angleDeg, dl, th, st). nat dl)") auto

declare collect.simps [simp del]


section \<open>Application state\<close>

text \<open>
  The canvas element as the program sees it: its pixel size and whether
  \<^verbatim>\<open>getContext("2d")\<close> yields a context. \<open>canvasRef = None\<close> is the unmounted canvas.
  \<open>rafRef\<close> holds the handle of the registered frame callback; \<open>rafCount\<close> counts the
  calls of \<^verbatim>\<open>requestAnimationFrame\<close>, whose handles are the non-zero numbers
  \<open>1, 2, ...\<close>. The browser's callback queue itself is not modelled.
\<close>

record Canvas =
  width :: real
  height :: real
  has2d :: bool

record AppState =
  canvasRef :: "Canvas option"
  windTimeRef :: real
  segmentsRef :: "Segment list"
  growIndexRef :: int
  rafRef :: "nat option"
  rafCount :: nat

definition buildSegments :: "Settings \<Rightarrow> (nat \<Rightarrow> real) \<Rightarrow> AppState \<Rightarrow> AppState" where
  "buildSegments settings rnd st =
     (case canvasRef st of
        None \<Rightarrow> st
      | Some canvas \<Rightarrow>
          if \<not> has2d canvas then st
          else
            let w = width canvas;
                h = height canvas;
                startX = w / 2;
                startY = h - 20;
                td = depth settings;
                built = collect settings rnd td startX startY (length_s settings) 90
                          (depth settings) (thickness settings) ([], 0)
            in st\<lparr>segmentsRef := fst built, growIndexRef := 0\<rparr>)"

section \<open>Frame renderer\<close>

text \<open>
  \<^verbatim>\<open>Math.atan2(y, x)\<close> on reals (signed zeros are outside the model).
\<close>

definition atan2 :: "real \<Rightarrow> real \<Rightarrow> real" where
  "atan2 y x =
     (if 0 < x then arctan (y / x)
      else if x < 0 then (if 0 \<le> y then arctan (y / x) + pi else arctan (y / x) - pi)
      else if 0 < y then pi / 2
      else if y < 0 then - (pi / 2)
      else 0)"

text \<open>
  What one frame paints, as far as the tree is concerned: the glow setting and one stroke
  per visible segment, with the radius of its leaf dot when one is drawn. The background
  gradient and its random dots are not modelled.
\<close>

record Stroke =
  fromX :: real
  fromY :: real
  toX :: real
  toY :: real
  strokeStyle :: string
  lineWidth :: real
  leafDot :: "real option"

record Frame =
  shadowBlur :: real
  shadowColor :: string
  strokes :: "Stroke list"

text \<open>The body of the drawing loop for one segment \<open>s\<close> at wind time \<open>t\<close>.\<close>

definition drawSegment :: "Settings \<Rightarrow> real \<Rightarrow> Segment \<Rightarrow> Stroke" where
  "drawSegment settings t s =
     (let wind = getWindAngle settings t (depthLeft s) (totalDepth s);
          dx = x2 s - x1 s;
          dy = y2 s - y1 s;
          baseAngle = atan2 (- dy) dx;
          len = sqrt (dx * dx + dy * dy);
          newAngle = baseAngle + (wind * pi) / 180;
          ex = x1 s + len * cos newAngle;
          ey = y1 s - len * sin newAngle
      in \<lparr>fromX = x1 s, fromY = y1 s, toX = ex, toY = ey,
          strokeStyle = branchColor settings (depthLeft s) (totalDepth s),
          lineWidth = thick s,
          leafDot = (if leafMode settings \<and> depthLeft s \<le> 2
                     then Some (clamp (thick s * 0.55) 1.2 5) else None)\<rparr>)"

text \<open>
  The loop \<^verbatim>\<open>for (i = 0; i < limit; i++)\<close> visits \<open>segs[0], ..., segs[limit - 1]\<close>;
  \<open>limit\<close> is at most the number of segments, so every read is in range.
\<close>

definition drawSegmentsFrame :: "Settings \<Rightarrow> AppState \<Rightarrow> Frame \<times> AppState" where
  "drawSegmentsFrame settings st =
     (let c = presetColors (preset settings);
          segs = segmentsRef st;
          total = int (length segs);
          limit = (if growAnimation settings then clamp (growIndexRef st) 0 total else total);
          drawn = map (drawSegment settings (windTimeRef st)) (take (nat limit) segs);
          frame = \<lparr>shadowBlur = (if glow c then 18 else 0),
                   shadowColor = (if glow c then leaf c else ''transparent''),
                   strokes = drawn\<rparr>
      in (frame,
          if growAnimation settings \<and> growIndexRef st < total
          then st\<lparr>growIndexRef := growIndexRef st + growSpeed settings\<rparr>
          else st))"

section \<open>Animation driver\<close>

definition stopLoop :: "AppState \<Rightarrow> AppState" where
  "stopLoop st =
     (case rafRef st of
        None \<Rightarrow> st
      | Some h \<Rightarrow> if h \<noteq> 0 then st\<lparr>rafRef := None\<rparr> else st)"

definition requestAnimationFrame :: "AppState \<Rightarrow> AppState" where
  "requestAnimationFrame st =
     st\<lparr>rafRef := Some (Suc (rafCount st)), rafCount := Suc (rafCount st)\<rparr>"

definition startLoop :: "AppState \<Rightarrow> AppState" where
  "startLoop st =
     (let st1 = stopLoop st
      in case canvasRef st1 of
           None \<Rightarrow> st1
         | Some canvas \<Rightarrow> if \<not> has2d canvas then st1 else requestAnimationFrame st1)"

text \<open>One firing of the frame callback registered by \<^verbatim>\<open>startLoop\<close>.\<close>

definition tick :: "Settings \<Rightarrow> AppState \<Rightarrow> Frame \<times> AppState" where
  "tick settings st =
     (let st1 = st\<lparr>windTimeRef := windTimeRef st + 0.02 * windSpeed settings\<rparr>;
          drawn = drawSegmentsFrame settings st1
      in (fst drawn, requestAnimationFrame (snd drawn)))"

text \<open>The state after \<open>k\<close> consecutive frames of the running loop.\<close>

fun ticks :: "Settings \<Rightarrow> nat \<Rightarrow> AppState \<Rightarrow> AppState" where
  "ticks settings 0 st = st"
| "ticks settings (Suc k) st = ticks settings k (snd (tick settings st))"

definition drawTreeOnce ::
  "Settings \<Rightarrow> (nat \<Rightarrow> real) \<Rightarrow> AppState \<Rightarrow> Frame option \<times> AppState" where
  "drawTreeOnce settings rnd st =
     (let st1 = buildSegments settings rnd st
      in case canvasRef st1 of
           None \<Rightarrow> (None, st1)
         | Some canvas \<Rightarrow>
             if \<not> has2d canvas then (None, st1)
             else
               let st2 = st1\<lparr>growIndexRef := int (length (segmentsRef st1))\<rparr>;
                   drawn = drawSegmentsFrame settings st2
               in (Some (fst drawn), snd drawn))"

text \<open>
  \<^verbatim>\<open>downloadPNG\<close> returns the file name of the download it triggers, if any; the image
  data is not modelled.
\<close>

definition downloadPNG :: "AppState \<Rightarrow> string option \<times> AppState" where
  "downloadPNG st =
     (case canvasRef st of
        None \<Rightarrow> (None, st)
      | Some canvas \<Rightarrow> (Some ''fractal-tree.png'', st))"

text \<open>
  The two \<^verbatim>\<open>useEffect\<close> hooks with their dependency arrays. When a render replaces
  the settings \<open>old\<close> (background \<open>bgOld\<close>) by \<open>new\<close> (\<open>bgNew\<close>), React runs the cleanup of
  every effect whose dependencies changed and then the effects themselves, in order.
\<close>

definition structureDeps :: "Settings \<Rightarrow> int \<times> real \<times> real \<times> real \<times> real \<times> real" where
  "structureDeps settings =
     (depth settings, angle settings, length_s settings, shrink settings,
      thickness settings, randomness settings)"

definition animationDeps ::
  "Settings \<Rightarrow> ThemeBG \<Rightarrow> bool \<times> real \<times> real \<times> bool \<times> int \<times> bool \<times> ColorPreset \<times> ThemeBG" where
  "animationDeps settings bg =
     (animateWind settings, windStrength settings, windSpeed settings,
      growAnimation settings, growSpeed settings, leafMode settings, preset settings, bg)"

definition runEffects ::
  "Settings \<Rightarrow> ThemeBG \<Rightarrow> Settings \<Rightarrow> ThemeBG \<Rightarrow> (nat \<Rightarrow> real) \<Rightarrow> AppState \<Rightarrow> AppState" where
  "runEffects old bgOld new bgNew rnd st =
     (let loopChanged = (animationDeps new bgNew \<noteq> animationDeps old bgOld);
          st1 = (if loopChanged then stopLoop st else st);
          st2 = (if structureDeps new \<noteq> structureDeps old
                 then buildSegments new rnd st1 else st1)
      in if loopChanged then startLoop st2 else st2)"


section \<open>Initial values and auxiliary notions\<close>

text \<open>The initial settings of \<^verbatim>\<open>useState\<close> and the refs of a page whose canvas
  (\<^verbatim>\<open><canvas width={1000} height={650} />\<close>) is mounted.\<close>

definition defaultSettings :: Settings where
  "defaultSettings =
     \<lparr>depth = 11, angle = 25, length_s = 150, shrink = 0.67, thickness = 10, randomness = 2,
      leafMode = True, animateWind = True, windStrength = 4, windSpeed = 1.2,
      growAnimation = True, growSpeed = 80, preset = spring\<rparr>"

definition pageCanvas :: Canvas where
  "pageCanvas = \<lparr>width = 1000, height = 650, has2d = True\<rparr>"

definition initialState :: AppState where
  "initialState =
     \<lparr>canvasRef = Some pageCanvas, windTimeRef = 0, segmentsRef = [], growIndexRef = 0,
      rafRef = None, rafCount = 0\<rparr>"

text \<open>
  Two notions used to state properties of \<open>collect\<close>: the segment that a call which does
  not stop pushes when \<open>n\<close> random numbers have been drawn before it, and the list of
  segments that a call appends to the array.
\<close>

definition pushedSegment ::
  "Settings \<Rightarrow> (nat \<Rightarrow> real) \<Rightarrow> int \<Rightarrow> real \<Rightarrow> real \<Rightarrow> real \<Rightarrow> real \<Rightarrow> int \<Rightarrow> real \<Rightarrow> nat
     \<Rightarrow> Segment" where
  "pushedSegment settings rnd td x y len angleDeg dl th n =
     \<lparr>x1 = x, y1 = y,
      x2 = x + len * cos (((angleDeg + randomAngle settings (rnd n)) * pi) / 180),
      y2 = y - len * sin (((angleDeg + randomAngle settings (rnd n)) * pi) / 180),
      thick = th, depthLeft = dl, totalDepth = td\<rparr>"

definition emitted ::
  "Settings \<Rightarrow> (nat \<Rightarrow> real) \<Rightarrow> int \<Rightarrow> real \<Rightarrow> real \<Rightarrow> real \<Rightarrow> real \<Rightarrow> int \<Rightarrow> real \<Rightarrow> nat
     \<Rightarrow> Segment list" where
  "emitted settings rnd td x y len angleDeg dl th n =
     fst (collect settings rnd td x y len angleDeg dl th ([], n))"

text \<open>What two builds of one configuration share: everything but the coordinates.\<close>

definition shape :: "Segment \<Rightarrow> real \<times> int \<times> int" where
  "shape s = (thick s, depthLeft s, totalDepth s)"

definition scenarioSettings :: Settings where
  "scenarioSettings = defaultSettings\<lparr>depth := 1, randomness := 0\<rparr>"

definition scenarioRoot :: Segment where
  "scenarioRoot =
     \<lparr>x1 = 500, y1 = 630, x2 = 500, y2 = 480, thick = 10, depthLeft = 1, totalDepth = 1\<rparr>"


definition exampleState :: AppState where
  "exampleState = initialState\<lparr>segmentsRef := replicate 500 scenarioRoot\<rparr>"

definition midGrowthState :: AppState where
  "midGrowthState = exampleState\<lparr>windTimeRef := 3, growIndexRef := 160\<rparr>"

definition calmSettings :: Settings where
  "calmSettings = defaultSettings\<lparr>animateWind := False\<rparr>"

definition twoLevelSettings :: Settings where
  "twoLevelSettings = defaultSettings\<lparr>depth := 2, randomness := 0\<rparr>"

definition twoLevelState :: AppState where
  "twoLevelState = snd (drawTreeOnce twoLevelSettings (\<lambda>i. 1 / 2) initialState)"

section \<open>Properties of the geometry builder\<close>

lemma collect_stop:
  "dl \<le> 0 \<or> len < 2 \<Longrightarrow> collect s rnd td x y len a dl th st = st"
  by (cases st) (simp add: collect.simps)

lemma collect_step:
  assumes "\<not> (dl \<le> 0 \<or> len < 2)"
  shows "collect s rnd td x y len a dl th (segs, n) =
     (let sg = pushedSegment s rnd td x y len a dl th n
      in collect s rnd td (x2 sg) (y2 sg) (len * shrink s) (a + angle s) (dl - 1) (th * 0.75)
           (collect s rnd td (x2 sg) (y2 sg) (len * shrink s) (a - angle s) (dl - 1) (th * 0.75)
              (segs @ [sg], Suc n)))"
  using assms by (subst collect.simps) (simp add: Let_def pushedSegment_def)

text \<open>A call appends its segments to whatever the array holds, one random draw each.\<close>

lemma collect_acc:
  "collect s rnd td x y len a dl th (segs, n) =
     (segs @ emitted s rnd td x y len a dl th n,
      n + length (emitted s rnd td x y len a dl th n))"
proof (induction "nat dl" arbitrary: x y len a dl th segs n)
  case 0
  then show ?case by (simp add: collect_stop emitted_def)
next
  case (Suc k)
  have k: "k = nat (dl - 1)" using Suc.hyps(2) by simp
  note IH = Suc.hyps(1)[OF k]
  show ?case
  proof (cases "dl \<le> 0 \<or> len < 2")
    case True
    then show ?thesis by (simp add: collect_stop emitted_def)
  next
    case False
    define sg where "sg = pushedSegment s rnd td x y len a dl th n"
    define L where "L = emitted s rnd td (x2 sg) (y2 sg) (len * shrink s) (a - angle s)
                          (dl - 1) (th * 0.75) (Suc n)"
    define R where "R = emitted s rnd td (x2 sg) (y2 sg) (len * shrink s) (a + angle s)
                          (dl - 1) (th * 0.75) (Suc n + length L)"
    have gen: "collect s rnd td x y len a dl th (acc, n) =
                 (acc @ sg # L @ R, n + length (sg # L @ R))" for acc
    proof -
      have "collect s rnd td x y len a dl th (acc, n) =
            collect s rnd td (x2 sg) (y2 sg) (len * shrink s) (a + angle s) (dl - 1) (th * 0.75)
              (collect s rnd td (x2 sg) (y2 sg) (len * shrink s) (a - angle s) (dl - 1)
                 (th * 0.75) (acc @ [sg], Suc n))"
        using collect_step[OF False] by (simp add: Let_def sg_def)
      also have "\<dots> =
            collect s rnd td (x2 sg) (y2 sg) (len * shrink s) (a + angle s) (dl - 1) (th * 0.75)
              ((acc @ [sg]) @ L, Suc n + length L)"
        by (subst IH) (simp add: L_def)
      also have "\<dots> = (((acc @ [sg]) @ L) @ R, (Suc n + length L) + length R)"
        by (subst IH) (simp add: R_def)
      finally show ?thesis by simp
    qed
    have "emitted s rnd td x y len a dl th n = sg # L @ R"
      unfolding emitted_def[of s rnd td x y len a dl th n] using gen[of "[]"] by simp
    then show ?thesis using gen[of segs] by simp
  qed
qed

lemma emitted_stop: "dl \<le> 0 \<or> len < 2 \<Longrightarrow> emitted s rnd td x y len a dl th n = []"
  by (simp add: emitted_def collect_stop)

lemma emitted_step:
  assumes "\<not> (dl \<le> 0 \<or> len < 2)"
  shows "emitted s rnd td x y len a dl th n =
     (let sg = pushedSegment s rnd td x y len a dl th n;
          L = emitted s rnd td (x2 sg) (y2 sg) (len * shrink s) (a - angle s) (dl - 1)
                (th * 0.75) (Suc n)
      in sg # L @ emitted s rnd td (x2 sg) (y2 sg) (len * shrink s) (a + angle s) (dl - 1)
                    (th * 0.75) (Suc n + length L))"
proof -
  define sg where "sg = pushedSegment s rnd td x y len a dl th n"
  define L where "L = emitted s rnd td (x2 sg) (y2 sg) (len * shrink s) (a - angle s)
                        (dl - 1) (th * 0.75) (Suc n)"
  define R where "R = emitted s rnd td (x2 sg) (y2 sg) (len * shrink s) (a + angle s)
                        (dl - 1) (th * 0.75) (Suc n + length L)"
  have "collect s rnd td x y len a dl th ([], n) =
        collect s rnd td (x2 sg) (y2 sg) (len * shrink s) (a + angle s) (dl - 1) (th * 0.75)
          (collect s rnd td (x2 sg) (y2 sg) (len * shrink s) (a - angle s) (dl - 1) (th * 0.75)
             ([sg], Suc n))"
    using collect_step[OF assms, of s rnd td x y a th "[]" n] by (simp add: Let_def sg_def)
  also have "\<dots> =
        collect s rnd td (x2 sg) (y2 sg) (len * shrink s) (a + angle s) (dl - 1) (th * 0.75)
          ([sg] @ L, Suc n + length L)"
    by (subst collect_acc) (simp add: L_def)
  also have "\<dots> = (([sg] @ L) @ R, (Suc n + length L) + length R)"
    by (subst collect_acc) (simp add: R_def)
  finally have "emitted s rnd td x y len a dl th n = sg # L @ R"
    by (simp add: emitted_def[of s rnd td x y len a dl th n])
  then show ?thesis by (simp add: Let_def sg_def L_def R_def)
qed


lemma buildSegments_canvas:
  "canvasRef st = Some c \<Longrightarrow> has2d c \<Longrightarrow>
   buildSegments s rnd st =
     st\<lparr>segmentsRef := emitted s rnd (depth s) (width c / 2) (height c - 20) (length_s s) 90
                          (depth s) (thickness s) 0,
        growIndexRef := 0\<rparr>"
  by (simp add: buildSegments_def emitted_def Let_def)

lemma buildSegments_no_canvas:
  "canvasRef st = None \<or> (\<exists>c. canvasRef st = Some c \<and> \<not> has2d c) \<Longrightarrow>
   buildSegments s rnd st = st"
  by (auto simp: buildSegments_def)

lemma emitted_depths:
  "seg \<in> set (emitted s rnd td x y len a dl th n) \<Longrightarrow>
   0 < depthLeft seg \<and> depthLeft seg \<le> dl \<and> totalDepth seg = td"
proof (induction "nat dl" arbitrary: x y len a dl th n)
  case 0
  then show ?case by (simp add: emitted_stop)
next
  case (Suc k)
  have k: "k = nat (dl - 1)" using Suc.hyps(2) by simp
  note IH = Suc.hyps(1)[OF k]
  show ?case
  proof (cases "dl \<le> 0 \<or> len < 2")
    case True
    then show ?thesis using Suc.prems by (simp add: emitted_stop)
  next
    case False
    define sg where "sg = pushedSegment s rnd td x y len a dl th n"
    define L where "L = emitted s rnd td (x2 sg) (y2 sg) (len * shrink s) (a - angle s)
                          (dl - 1) (th * 0.75) (Suc n)"
    define R where "R = emitted s rnd td (x2 sg) (y2 sg) (len * shrink s) (a + angle s)
                          (dl - 1) (th * 0.75) (Suc n + length L)"
    have e: "emitted s rnd td x y len a dl th n = sg # L @ R"
      using emitted_step[OF False, of s rnd td x y a th n]
      by (simp add: Let_def sg_def L_def R_def)
    from Suc.prems e consider "seg = sg" | "seg \<in> set L" | "seg \<in> set R" by auto
    then show ?thesis
    proof cases
      case 1
      then show ?thesis using False by (simp add: sg_def pushedSegment_def)
    next
      case 2
      then show ?thesis using IH[of "x2 sg" "y2 sg" "len * shrink s" "a - angle s" "th * 0.75" "Suc n"]
        unfolding L_def by simp
    next
      case 3
      then show ?thesis using IH[of "x2 sg" "y2 sg" "len * shrink s" "a + angle s" "th * 0.75" "Suc n + length L"]
        unfolding R_def by simp
    qed
  qed
qed

lemma emitted_hd:
  "\<not> (dl \<le> 0 \<or> len < 2) \<Longrightarrow>
   hd (emitted s rnd td x y len a dl th n) = pushedSegment s rnd td x y len a dl th n"
  by (simp add: emitted_step Let_def)

lemma emitted_Nil_iff: "emitted s rnd td x y len a dl th n = [] \<longleftrightarrow> dl \<le> 0 \<or> len < 2"
proof (cases "dl \<le> 0 \<or> len < 2")
  case True
  then show ?thesis by (simp add: emitted_stop)
next
  case False
  then show ?thesis using emitted_step[OF False, of s rnd td x y a th n] by (simp add: Let_def)
qed



section \<open>Colour resolution and sway\<close>

text \<open>
  Claim C3. The stroke colour depends only on the ratio \<open>depthLeft / totalDepth\<close>, the
  leaf mode and the preset: with leaf mode off it is the preset's branch colour; with leaf
  mode on it is the trunk colour for a ratio above 0.55, the branch colour for a ratio in
  (0.25, 0.55] and the leaf colour for a ratio of at most 0.25. For the preset spring with
  leaf mode on, the ratios 0.9, 0.4 and 0.1 give #a16207, #16a34a and #22c55e.
\<close>
theorem branchColor_resolution:
  "(\<not> leafMode s \<longrightarrow> branchColor s dl td = branch (presetColors (preset s)))
   \<and> (leafMode s \<and> td \<noteq> 0 \<and> real_of_int dl / real_of_int td > 0.55 \<longrightarrow>
        branchColor s dl td = trunk (presetColors (preset s)))
   \<and> (leafMode s \<and> td \<noteq> 0 \<and> 0.25 < real_of_int dl / real_of_int td
         \<and> real_of_int dl / real_of_int td \<le> 0.55 \<longrightarrow>
        branchColor s dl td = branch (presetColors (preset s)))
   \<and> (leafMode s \<and> td \<noteq> 0 \<and> real_of_int dl / real_of_int td \<le> 0.25 \<longrightarrow>
        branchColor s dl td = leaf (presetColors (preset s)))
   \<and> (leafMode s = leafMode s' \<and> preset s = preset s' \<and> td \<noteq> 0 \<and> td' \<noteq> 0
         \<and> real_of_int dl / real_of_int td = real_of_int dl' / real_of_int td' \<longrightarrow>
        branchColor s dl td = branchColor s' dl' td')
   \<and> (leafMode s \<and> preset s = spring \<longrightarrow>
        branchColor s 9 10 = ''#a16207'' \<and> branchColor s 4 10 = ''#16a34a''
        \<and> branchColor s 1 10 = ''#22c55e'')"
proof -
  define r where "r = real_of_int dl / real_of_int td"
  define r' where "r' = real_of_int dl' / real_of_int td'"
  have col: "branchColor s dl td =
               (if \<not> leafMode s then branch (presetColors (preset s))
                else if r > 0.55 then trunk (presetColors (preset s))
                else if r > 0.25 then branch (presetColors (preset s))
                else leaf (presetColors (preset s)))"
    by (simp add: branchColor_def Let_def r_def)
  have col': "branchColor s' dl' td' =
               (if \<not> leafMode s' then branch (presetColors (preset s'))
                else if r' > 0.55 then trunk (presetColors (preset s'))
                else if r' > 0.25 then branch (presetColors (preset s'))
                else leaf (presetColors (preset s')))"
    by (simp add: branchColor_def Let_def r'_def)
  have c1: "\<not> leafMode s \<longrightarrow> branchColor s dl td = branch (presetColors (preset s))"
    by (simp add: col)
  have c2: "leafMode s \<and> td \<noteq> 0 \<and> r > 0.55 \<longrightarrow>
              branchColor s dl td = trunk (presetColors (preset s))"
    by (simp add: col)
  have c3: "leafMode s \<and> td \<noteq> 0 \<and> 0.25 < r \<and> r \<le> 0.55 \<longrightarrow>
              branchColor s dl td = branch (presetColors (preset s))"
    by (simp add: col)
  have c4: "leafMode s \<and> td \<noteq> 0 \<and> r \<le> 0.25 \<longrightarrow>
              branchColor s dl td = leaf (presetColors (preset s))"
    unfolding col by (cases "r > 0.55"; cases "r > 0.25") auto
  have c5: "leafMode s = leafMode s' \<and> preset s = preset s' \<and> td \<noteq> 0 \<and> td' \<noteq> 0
              \<and> r = r' \<longrightarrow> branchColor s dl td = branchColor s' dl' td'"
    unfolding col col' by simp
  have c6: "leafMode s \<and> preset s = spring \<longrightarrow>
        branchColor s 9 10 = ''#a16207'' \<and> branchColor s 4 10 = ''#16a34a''
        \<and> branchColor s 1 10 = ''#22c55e''"
    by (simp add: branchColor_def Let_def)
  show ?thesis
    using c1 c2 c3 c4 c5 c6 unfolding r_def r'_def by blast
qed

theorem branchColor_resolution_witness:
  "leafMode defaultSettings \<and> preset defaultSettings = spring
   \<and> branchColor defaultSettings 9 10 = ''#a16207''
   \<and> branchColor defaultSettings 4 10 = ''#16a34a''
   \<and> branchColor defaultSettings 1 10 = ''#22c55e''
   \<and> \<not> leafMode (defaultSettings\<lparr>leafMode := False\<rparr>)
   \<and> branchColor (defaultSettings\<lparr>leafMode := False\<rparr>) 9 10 = ''#16a34a''
   \<and> (10::int) \<noteq> 0 \<and> (20::int) \<noteq> 0 \<and> real_of_int 9 / real_of_int 10 > 0.55
   \<and> real_of_int 9 / real_of_int 10 = real_of_int 18 / real_of_int 20
   \<and> branchColor defaultSettings 9 10 = branchColor defaultSettings 18 20"
  using branchColor_resolution[where s = defaultSettings and dl = 9 and td = 10
          and s' = defaultSettings and dl' = 18 and td' = 20]
    branchColor_resolution[where s = "defaultSettings\<lparr>leafMode := False\<rparr>" and dl = 9 and td = 10
          and s' = defaultSettings and dl' = 18 and td' = 20]
  by (auto simp: defaultSettings_def)

text \<open>
  Claim C4. With wind animation disabled the sway angle is 0 for every segment and wind
  time. With it enabled the angle is \<open>sin windTime * windStrength * (1 - depthLeft / totalDepth)\<close>,
  and for a wind strength in its range (non-negative) its magnitude is at most
  \<open>windStrength * leafFactor\<close>, for all \<open>0 < depthLeft \<le> totalDepth\<close> and so for every
  segment that the builder produces.
\<close>
theorem getWindAngle_bounded:
  "(\<not> animateWind s \<longrightarrow> getWindAngle s t dl td = 0)
   \<and> (animateWind s \<and> td \<noteq> 0 \<longrightarrow>
        getWindAngle s t dl td
          = sin t * windStrength s * (1 - real_of_int dl / real_of_int td))
   \<and> (0 \<le> windStrength s \<and> 0 < dl \<and> dl \<le> td \<longrightarrow>
        \<bar>getWindAngle s t dl td\<bar> \<le> windStrength s * (1 - real_of_int dl / real_of_int td))
   \<and> (0 \<le> windStrength s \<and> canvasRef st = Some c \<and> has2d c \<longrightarrow>
        (\<forall>seg \<in> set (segmentsRef (buildSegments b rnd st)).
           \<bar>getWindAngle s t (depthLeft seg) (totalDepth seg)\<bar>
             \<le> windStrength s
                 * (1 - real_of_int (depthLeft seg) / real_of_int (totalDepth seg))))"
proof -
  have bound: "\<bar>getWindAngle s t dl' td'\<bar>
                 \<le> windStrength s * (1 - real_of_int dl' / real_of_int td')"
    if w: "0 \<le> windStrength s" and d: "0 < dl'" "dl' \<le> td'" for dl' td'
  proof -
    have "real_of_int dl' / real_of_int td' \<le> 1" using d by simp
    then have nn: "0 \<le> windStrength s * (1 - real_of_int dl' / real_of_int td')"
      using w by simp
    show ?thesis
    proof (cases "animateWind s")
      case False
      then show ?thesis using nn by (simp add: getWindAngle_def)
    next
      case True
      have "\<bar>sin t * (windStrength s * (1 - real_of_int dl' / real_of_int td'))\<bar>
              = \<bar>sin t\<bar> * (windStrength s * (1 - real_of_int dl' / real_of_int td'))"
        by (simp only: abs_mult[of "sin t"] abs_of_nonneg[OF nn])
      also have "\<dots> \<le> 1 * (windStrength s * (1 - real_of_int dl' / real_of_int td'))"
        using nn by (intro mult_right_mono) auto
      finally show ?thesis using True by (simp add: getWindAngle_def Let_def)
    qed
  qed
  have built: "\<bar>getWindAngle s t (depthLeft seg) (totalDepth seg)\<bar>
             \<le> windStrength s
                 * (1 - real_of_int (depthLeft seg) / real_of_int (totalDepth seg))"
    if "0 \<le> windStrength s" "canvasRef st = Some c" "has2d c"
       "seg \<in> set (segmentsRef (buildSegments b rnd st))" for seg
  proof -
    have "seg \<in> set (emitted b rnd (depth b) (width c / 2) (height c - 20) (length_s b) 90
                          (depth b) (thickness b) 0)"
      using that by (simp add: buildSegments_canvas)
    from emitted_depths[OF this] show ?thesis using bound that(1) by simp
  qed
  show ?thesis using bound built by (simp add: getWindAngle_def Let_def)
qed

theorem getWindAngle_bounded_witness:
  "animateWind defaultSettings \<and> 0 \<le> windStrength defaultSettings \<and> (10::int) \<noteq> 0
   \<and> (0::int) < 5 \<and> (5::int) \<le> 10
   \<and> getWindAngle defaultSettings (pi / 2) 5 10 = 2
   \<and> \<bar>getWindAngle defaultSettings (pi / 2) 5 10\<bar>
        \<le> windStrength defaultSettings * (1 - real_of_int 5 / real_of_int 10)
   \<and> \<not> animateWind (defaultSettings\<lparr>animateWind := False\<rparr>)
   \<and> getWindAngle (defaultSettings\<lparr>animateWind := False\<rparr>) (pi / 2) 5 10 = 0"
  using getWindAngle_bounded[where s = defaultSettings and t = "pi / 2" and dl = 5 and td = 10]
    getWindAngle_bounded[where s = "defaultSettings\<lparr>animateWind := False\<rparr>"
      and t = "pi / 2" and dl = 5 and td = 10]
  by (auto simp: defaultSettings_def)

section \<open>Scenario and trunk base\<close>

lemma cos_sin_quarter: "cos (90 * pi / 180) = 0" "sin (90 * pi / 180) = 1"
proof -
  have "90 * pi / 180 = pi / 2" by simp
  then show "cos (90 * pi / 180) = 0" "sin (90 * pi / 180) = 1" by simp_all
qed

text \<open>
  Claim C5. For depth 1, angle 25, length 150, shrink 0.67, thickness 10 and randomness 0 on
  a 1000 x 650 canvas (whatever the other settings, the random source and the previous
  state) the builder stores exactly one segment, from (500, 630) to (500, 480).
\<close>

theorem scenario_depth_one:
  "segmentsRef
     (buildSegments
        \<lparr>depth = 1, angle = 25, length_s = 150, shrink = 0.67, thickness = 10,
         randomness = 0, leafMode = lm, animateWind = aw, windStrength = ws, windSpeed = wv,
         growAnimation = ga, growSpeed = gs, preset = pr\<rparr>
        rnd (st\<lparr>canvasRef := Some \<lparr>width = 1000, height = 650, has2d = True\<rparr>\<rparr>))
   = [\<lparr>x1 = 500, y1 = 630, x2 = 500, y2 = 480, thick = 10, depthLeft = 1, totalDepth = 1\<rparr>]"
proof -
  define cfg where "cfg = \<lparr>depth = 1, angle = 25, length_s = 150, shrink = 0.67, thickness = 10,
         randomness = 0, leafMode = lm, animateWind = aw, windStrength = ws, windSpeed = wv,
         growAnimation = ga, growSpeed = gs, preset = pr\<rparr>"
  have ns: "\<not> ((1::int) \<le> 0 \<or> (150::real) < 2)" by simp
  have sg: "pushedSegment cfg rnd 1 500 630 150 90 1 10 0
              = \<lparr>x1 = 500, y1 = 630, x2 = 500, y2 = 480, thick = 10, depthLeft = 1,
                 totalDepth = 1\<rparr>"
    by (simp add: pushedSegment_def randomAngle_def cfg_def cos_sin_quarter)
  have "emitted cfg rnd 1 500 630 150 90 1 10 0
          = [\<lparr>x1 = 500, y1 = 630, x2 = 500, y2 = 480, thick = 10, depthLeft = 1,
              totalDepth = 1\<rparr>]"
    by (simp add: emitted_step[OF ns] Let_def sg emitted_stop)
  then show ?thesis
    by (simp add: buildSegments_canvas[where c = "\<lparr>width = 1000, height = 650, has2d = True\<rparr>"]
          cfg_def[symmetric]) (simp add: cfg_def)
qed

text \<open>The drawing loop recovers the stored end point when the sway angle is 0.\<close>

lemma atan2_polar:
  "sqrt (x * x + y * y) * cos (atan2 y x) = x"
  "sqrt (x * x + y * y) * sin (atan2 y x) = y"
proof -
  have pos: "sqrt (x * x + y * y) = x * sqrt (1 + (y / x)\<^sup>2)" if "0 < x"
  proof -
    have "x * x + y * y = x\<^sup>2 * (1 + (y / x)\<^sup>2)"
      using that by (simp add: field_simps power2_eq_square)
    then show ?thesis using that by (simp add: real_sqrt_mult)
  qed
  have neg: "sqrt (x * x + y * y) = - x * sqrt (1 + (y / x)\<^sup>2)" if "x < 0"
  proof -
    have "x * x + y * y = x\<^sup>2 * (1 + (y / x)\<^sup>2)"
      using that by (simp add: field_simps power2_eq_square)
    then show ?thesis using that by (simp add: real_sqrt_mult)
  qed
  have nz: "sqrt (1 + (y / x)\<^sup>2) \<noteq> 0"
    by (metis add_nonneg_eq_0_iff real_sqrt_eq_zero_cancel_iff zero_le_power2 zero_neq_one zero_le_one)
  consider "0 < x" | "x < 0" | "x = 0" by linarith
  then show "sqrt (x * x + y * y) * cos (atan2 y x) = x"
  proof cases
    case 1
    then show ?thesis using nz by (simp add: atan2_def pos cos_arctan)
  next
    case 2
    then show ?thesis using nz by (simp add: atan2_def neg cos_arctan)
  next
    case 3
    then show ?thesis by (simp add: atan2_def)
  qed
  consider "0 < x" | "x < 0" | "x = 0" by linarith
  then show "sqrt (x * x + y * y) * sin (atan2 y x) = y"
  proof cases
    case 1
    then show ?thesis using nz by (simp add: atan2_def pos sin_arctan)
  next
    case 2
    then show ?thesis using nz by (simp add: atan2_def neg sin_arctan)
  next
    case 3
    then show ?thesis by (simp add: atan2_def)
  qed
qed

lemma drawSegment_still:
  assumes "getWindAngle s t (depthLeft seg) (totalDepth seg) = 0"
  shows "toX (drawSegment s t seg) = x2 seg" "toY (drawSegment s t seg) = y2 seg"
proof -
  define dx where "dx = x2 seg - x1 seg"
  define dy where "dy = y2 seg - y1 seg"
  have c: "sqrt (dx * dx + dy * dy) * cos (atan2 (- dy) dx) = dx"
    and sn: "sqrt (dx * dx + dy * dy) * sin (atan2 (- dy) dx) = - dy"
    using atan2_polar[of dx "- dy"] by simp_all
  have "toX (drawSegment s t seg) = x1 seg + sqrt (dx * dx + dy * dy) * cos (atan2 (- dy) dx)"
    using assms by (simp add: drawSegment_def Let_def dx_def dy_def)
  then show "toX (drawSegment s t seg) = x2 seg" unfolding c by (simp add: dx_def)
  have "toY (drawSegment s t seg) = y1 seg - sqrt (dx * dx + dy * dy) * sin (atan2 (- dy) dx)"
    using assms by (simp add: drawSegment_def Let_def dx_def dy_def)
  then show "toY (drawSegment s t seg) = y2 seg" unfolding sn by (simp add: dy_def)
qed

lemma getWindAngle_trunk: "td \<noteq> 0 \<Longrightarrow> getWindAngle s t td td = 0"
  by (simp add: getWindAngle_def Let_def)

text \<open>
  Claim C10. A segment whose \<open>depthLeft\<close> equals its \<open>totalDepth\<close> has sway angle 0 for
  every wind time and every setting of wind strength and wind animation, so the drawing
  loop paints it to its stored end point. The first segment of every non-empty build is
  such a segment.
\<close>

theorem trunk_base_never_sways:
  "(depthLeft seg = totalDepth seg \<and> totalDepth seg \<noteq> 0 \<longrightarrow>
      getWindAngle s t (depthLeft seg) (totalDepth seg) = 0
      \<and> toX (drawSegment s t seg) = x2 seg \<and> toY (drawSegment s t seg) = y2 seg)
   \<and> (canvasRef st = Some c \<and> has2d c \<and> segmentsRef (buildSegments b rnd st) \<noteq> [] \<longrightarrow>
        (let root = hd (segmentsRef (buildSegments b rnd st))
         in depthLeft root = totalDepth root \<and> totalDepth root \<noteq> 0
            \<and> getWindAngle s t (depthLeft root) (totalDepth root) = 0
            \<and> toX (drawSegment s t root) = x2 root \<and> toY (drawSegment s t root) = y2 root))"
proof -
  have still: "getWindAngle s t (depthLeft g) (totalDepth g) = 0
      \<and> toX (drawSegment s t g) = x2 g \<and> toY (drawSegment s t g) = y2 g"
    if "depthLeft g = totalDepth g" "totalDepth g \<noteq> 0" for g
    using that drawSegment_still[of s t g] getWindAngle_trunk[of "totalDepth g" s t] by simp
  have root: "depthLeft (hd (segmentsRef (buildSegments b rnd st)))
                = totalDepth (hd (segmentsRef (buildSegments b rnd st)))
              \<and> totalDepth (hd (segmentsRef (buildSegments b rnd st))) \<noteq> 0"
    if cv: "canvasRef st = Some c" "has2d c" and ne: "segmentsRef (buildSegments b rnd st) \<noteq> []"
  proof -
    let ?e = "emitted b rnd (depth b) (width c / 2) (height c - 20) (length_s b) 90
                (depth b) (thickness b) 0"
    have e: "segmentsRef (buildSegments b rnd st) = ?e"
      using cv by (simp add: buildSegments_canvas)
    with ne have ns: "\<not> (depth b \<le> 0 \<or> length_s b < 2)"
      by (simp add: emitted_Nil_iff)
    have "hd ?e = pushedSegment b rnd (depth b) (width c / 2) (height c - 20) (length_s b) 90
                    (depth b) (thickness b) 0"
      by (rule emitted_hd[OF ns])
    then show ?thesis using ns unfolding e by (simp add: pushedSegment_def)
  qed
  show ?thesis using still root by (simp add: Let_def)
qed

theorem trunk_base_never_sways_witness:
  "depthLeft \<lparr>x1 = 500, y1 = 630, x2 = 500, y2 = 480, thick = 10, depthLeft = 11,
              totalDepth = 11\<rparr>
     = totalDepth \<lparr>x1 = 500, y1 = 630, x2 = 500, y2 = 480, thick = 10, depthLeft = 11,
                   totalDepth = 11\<rparr>
   \<and> totalDepth \<lparr>x1 = 500, y1 = 630, x2 = 500, y2 = 480, thick = 10, depthLeft = 11,
                  totalDepth = 11\<rparr> \<noteq> 0
   \<and> getWindAngle defaultSettings 1 11 11 = 0
   \<and> toX (drawSegment defaultSettings 1
        \<lparr>x1 = 500, y1 = 630, x2 = 500, y2 = 480, thick = 10, depthLeft = 11,
         totalDepth = 11\<rparr>) = 500
   \<and> toY (drawSegment defaultSettings 1
        \<lparr>x1 = 500, y1 = 630, x2 = 500, y2 = 480, thick = 10, depthLeft = 11,
         totalDepth = 11\<rparr>) = 480
   \<and> canvasRef initialState = Some pageCanvas \<and> has2d pageCanvas
   \<and> segmentsRef (buildSegments defaultSettings (\<lambda>i. 1 / 2) initialState) \<noteq> []
   \<and> getWindAngle defaultSettings 1
         (depthLeft (hd (segmentsRef (buildSegments defaultSettings (\<lambda>i. 1 / 2) initialState))))
         (totalDepth (hd (segmentsRef (buildSegments defaultSettings (\<lambda>i. 1 / 2) initialState))))
       = 0"
proof -
  have cv: "canvasRef initialState = Some pageCanvas" "has2d pageCanvas"
    by (simp_all add: initialState_def pageCanvas_def)
  have ne: "segmentsRef (buildSegments defaultSettings (\<lambda>i. 1 / 2) initialState) \<noteq> []"
    by (simp add: buildSegments_canvas[OF cv] emitted_Nil_iff) (simp add: defaultSettings_def)
  show ?thesis
    using cv ne
      trunk_base_never_sways[where s = defaultSettings and t = 1
        and seg = "\<lparr>x1 = 500, y1 = 630, x2 = 500, y2 = 480, thick = 10, depthLeft = 11,
                  totalDepth = 11\<rparr>"
        and st = initialState and c = pageCanvas and b = defaultSettings
        and rnd = "\<lambda>i. 1 / 2"]
    by (auto simp: Let_def)
qed

section \<open>Properties of the frame renderer and the animation driver\<close>

lemma drawSegmentsFrame_state:
  "snd (drawSegmentsFrame s st) =
     (if growAnimation s \<and> growIndexRef st < int (length (segmentsRef st))
      then st\<lparr>growIndexRef := growIndexRef st + growSpeed s\<rparr> else st)"
  by (simp add: drawSegmentsFrame_def Let_def)

lemma drawSegmentsFrame_strokes:
  "strokes (fst (drawSegmentsFrame s st)) =
     map (drawSegment s (windTimeRef st))
       (take (nat (if growAnimation s
                   then clamp (growIndexRef st) 0 (int (length (segmentsRef st)))
                   else int (length (segmentsRef st))))
          (segmentsRef st))"
  by (simp add: drawSegmentsFrame_def Let_def)

lemma tick_segments [simp]: "segmentsRef (snd (tick s st)) = segmentsRef st"
  by (simp add: tick_def Let_def drawSegmentsFrame_state requestAnimationFrame_def)

lemma tick_growIndex:
  "growIndexRef (snd (tick s st)) =
     (if growAnimation s \<and> growIndexRef st < int (length (segmentsRef st))
      then growIndexRef st + growSpeed s else growIndexRef st)"
  by (simp add: tick_def Let_def drawSegmentsFrame_state requestAnimationFrame_def)

lemma tick_windTime:
  "windTimeRef (snd (tick s st)) = windTimeRef st + 0.02 * windSpeed s"
  by (simp add: tick_def Let_def drawSegmentsFrame_state requestAnimationFrame_def)

lemma tick_strokes:
  "strokes (fst (tick s st)) =
     map (drawSegment s (windTimeRef st + 0.02 * windSpeed s))
       (take (nat (if growAnimation s
                   then clamp (growIndexRef st) 0 (int (length (segmentsRef st)))
                   else int (length (segmentsRef st))))
          (segmentsRef st))"
  by (simp add: tick_def Let_def drawSegmentsFrame_strokes)

lemma ticks_snoc: "ticks s (Suc k) st = snd (tick s (ticks s k st))"
  by (induction k arbitrary: st) simp_all

lemma ticks_segments [simp]: "segmentsRef (ticks s k st) = segmentsRef st"
  by (induction k arbitrary: st) simp_all

lemma ticks_growIndex_Suc:
  "growIndexRef (ticks s (Suc k) st) =
     (if growAnimation s \<and> growIndexRef (ticks s k st) < int (length (segmentsRef st))
      then growIndexRef (ticks s k st) + growSpeed s else growIndexRef (ticks s k st))"
  by (simp only: ticks_snoc tick_growIndex ticks_segments)

lemma ticks_growIndex_mono:
  assumes "0 \<le> growSpeed s" and "j \<le> k"
  shows "growIndexRef (ticks s j st) \<le> growIndexRef (ticks s k st)"
  using assms(2)
proof (induction k)
  case 0
  then show ?case by simp
next
  case (Suc k)
  show ?case
  proof (cases "j = Suc k")
    case True
    then show ?thesis by simp
  next
    case False
    with Suc have "growIndexRef (ticks s j st) \<le> growIndexRef (ticks s k st)" by simp
    also have "\<dots> \<le> growIndexRef (ticks s (Suc k) st)"
      using assms(1) by (simp add: ticks_growIndex_Suc del: ticks.simps)
    finally show ?thesis .
  qed
qed

lemma ticks_growIndex_bound:
  assumes "growIndexRef st < int (length (segmentsRef st)) + growSpeed s"
  shows "growIndexRef (ticks s k st) < int (length (segmentsRef st)) + growSpeed s"
proof (induction k)
  case 0
  then show ?case using assms by simp
next
  case (Suc k)
  then show ?case by (simp add: ticks_growIndex_Suc del: ticks.simps)
qed

lemma ticks_growIndex_max:
  "growIndexRef (ticks s k st)
     \<le> max (growIndexRef st) (int (length (segmentsRef st)) - 1 + growSpeed s)"
proof (induction k)
  case 0
  then show ?case by simp
next
  case (Suc k)
  then show ?case by (simp add: ticks_growIndex_Suc del: ticks.simps) linarith
qed

lemma ticks_growIndex_numeral:
  "growIndexRef (ticks s (numeral k) st) =
     (if growAnimation s \<and> growIndexRef (ticks s (pred_numeral k) st) < int (length (segmentsRef st))
      then growIndexRef (ticks s (pred_numeral k) st) + growSpeed s
      else growIndexRef (ticks s (pred_numeral k) st))"
  by (simp only: numeral_eq_Suc ticks_growIndex_Suc)

lemma grow_sequence:
  assumes "growAnimation s" and h: "growSpeed s = 80" "length (segmentsRef st) = 500"
    "growIndexRef st = 0"
  shows "map (\<lambda>i. growIndexRef (ticks s i st)) [0, Suc 0, 2, 3, 4, 5, 6, 7, 8]
           = [0, 80, 160, 240, 320, 400, 480, 560, 560]"
proof -
  have g0: "growIndexRef (ticks s 0 st) = 0" using h by simp
  have g1: "growIndexRef (ticks s (Suc 0) st) = 80"
    using h assms(1) ticks_growIndex_Suc[of s 0 st] by simp
  have g: "growIndexRef (ticks s (numeral n) st) =
             (if growIndexRef (ticks s (pred_numeral n) st) < 500
              then growIndexRef (ticks s (pred_numeral n) st) + 80
              else growIndexRef (ticks s (pred_numeral n) st))" for n
    using h assms(1) by (simp only: ticks_growIndex_numeral) simp
  have g2: "growIndexRef (ticks s 2 st) = 160" using g1 by (simp add: g del: ticks.simps)
  have g3: "growIndexRef (ticks s 3 st) = 240" using g2 by (simp add: g del: ticks.simps)
  have g4: "growIndexRef (ticks s 4 st) = 320" using g3 by (simp add: g del: ticks.simps)
  have g5: "growIndexRef (ticks s 5 st) = 400" using g4 by (simp add: g del: ticks.simps)
  have g6: "growIndexRef (ticks s 6 st) = 480" using g5 by (simp add: g del: ticks.simps)
  have g7: "growIndexRef (ticks s 7 st) = 560" using g6 by (simp add: g del: ticks.simps)
  have g8: "growIndexRef (ticks s 8 st) = 560" using g7 by (simp add: g del: ticks.simps)
  show ?thesis by (simp add: g0 g1 g2 g3 g4 g5 g6 g7 g8 del: ticks.simps)
qed

text \<open>
  Claim C2 as stated fails: the stored counter \<^verbatim>\<open>growIndexRef\<close> is advanced by the full
  grow speed whenever it is below the segment count, so it overshoots. With grow speed 80
  and 500 segments it is 560 after seven frames; on the one-segment tree of the depth-1
  scenario it is 80 after one frame.
\<close>

theorem reveal_counter_overshoots:
  "growAnimation defaultSettings \<and> growSpeed defaultSettings = 80
   \<and> length (segmentsRef exampleState) = 500
   \<and> growIndexRef exampleState = 0
   \<and> growIndexRef (ticks defaultSettings 7
         exampleState) = 560
   \<and> \<not> growIndexRef (ticks defaultSettings 7
           exampleState)
         \<le> int (length (segmentsRef (ticks defaultSettings 7
                   exampleState)))
   \<and> segmentsRef (buildSegments scenarioSettings (\<lambda>i. 1 / 2) initialState) = [scenarioRoot]
   \<and> growIndexRef (buildSegments scenarioSettings (\<lambda>i. 1 / 2) initialState) = 0
   \<and> growIndexRef (ticks scenarioSettings 1
         (buildSegments scenarioSettings (\<lambda>i. 1 / 2) initialState)) = 80"
proof -
  have a: "growIndexRef (ticks defaultSettings 7
         exampleState) = 560"
    using grow_sequence[of defaultSettings "exampleState"]
    by (simp add: defaultSettings_def initialState_def exampleState_def del: ticks.simps)
  have cv: "canvasRef initialState = Some pageCanvas" "has2d pageCanvas"
    by (simp_all add: initialState_def pageCanvas_def)
  have ns: "\<not> ((1::int) \<le> 0 \<or> (150::real) < 2)" by simp
  have b: "segmentsRef (buildSegments scenarioSettings (\<lambda>i. 1 / 2) initialState)
             = [scenarioRoot]"
    by (simp add: buildSegments_canvas[OF cv] scenarioSettings_def defaultSettings_def
          pageCanvas_def emitted_step[OF ns] Let_def emitted_stop pushedSegment_def
          randomAngle_def cos_sin_quarter scenarioRoot_def)
  have c: "growIndexRef (buildSegments scenarioSettings (\<lambda>i. 1 / 2) initialState) = 0"
    by (simp add: buildSegments_canvas[OF cv])
  have d: "growIndexRef (ticks scenarioSettings 1
         (buildSegments scenarioSettings (\<lambda>i. 1 / 2) initialState)) = 80"
    using ticks_growIndex_Suc[of scenarioSettings 0
            "buildSegments scenarioSettings (\<lambda>i. 1 / 2) initialState"]
    by (simp add: b c del: ticks.simps(2)) (simp add: scenarioSettings_def defaultSettings_def)
  show ?thesis using a b c d by (simp add: defaultSettings_def initialState_def exampleState_def)
qed

text \<open>
  Claim C2, amended. With grow animation enabled and a non-negative grow speed, each frame
  draws the first \<open>clamp(counter, 0, segment count)\<close> segments, so never more than the list
  holds, and only then advances the stored counter, by the grow speed and only when the
  counter is below the segment count. Over any number of frames under the same settings
  the counter never decreases and never exceeds the larger of its starting value and
  segment count - 1 + grow speed; so a counter that starts below segment count plus grow
  speed (as after a rebuild, where it is 0) stays below it, while one left higher by an
  earlier, larger grow speed simply stays where it is. With grow speed 80 and 500
  segments the counter runs 0, 80, ..., 480, 560, 560 and the drawn prefix
  0, 80, ..., 480, 500, 500.
\<close>

theorem reveal_cutoff_per_frame:
  assumes "growAnimation s" and "0 \<le> growSpeed s"
  shows "length (strokes (fst (tick s st)))
           = nat (clamp (growIndexRef st) 0 (int (length (segmentsRef st))))
       \<and> length (strokes (fst (tick s st))) \<le> length (segmentsRef st)
       \<and> growIndexRef (snd (tick s st))
           = (if growIndexRef st < int (length (segmentsRef st))
              then growIndexRef st + growSpeed s else growIndexRef st)
       \<and> (j \<le> k \<longrightarrow> growIndexRef (ticks s j st) \<le> growIndexRef (ticks s k st))
       \<and> growIndexRef (ticks s k st)
           \<le> max (growIndexRef st) (int (length (segmentsRef st)) - 1 + growSpeed s)
       \<and> (growIndexRef st < int (length (segmentsRef st)) + growSpeed s \<longrightarrow>
            growIndexRef (ticks s k st) < int (length (segmentsRef st)) + growSpeed s)
       \<and> (int (length (segmentsRef st)) \<le> growIndexRef st \<longrightarrow>
            growIndexRef (ticks s k st) = growIndexRef st)
       \<and> (growSpeed s = 80 \<and> length (segmentsRef st) = 500 \<and> growIndexRef st = 0 \<longrightarrow>
            map (\<lambda>i. growIndexRef (ticks s i st)) [0, 1, 2, 3, 4, 5, 6, 7, 8]
              = [0, 80, 160, 240, 320, 400, 480, 560, 560]
            \<and> map (\<lambda>i. length (strokes (fst (tick s (ticks s i st))))) [0, 1, 2, 3, 4, 5, 6, 7, 8]
              = [0, 80, 160, 240, 320, 400, 480, 500, 500])"
proof -
  have drawn: "length (strokes (fst (tick s st')))
           = nat (clamp (growIndexRef st') 0 (int (length (segmentsRef st'))))" for st'
    using assms(1) by (simp add: tick_strokes clamp_def)
  have le: "length (strokes (fst (tick s st))) \<le> length (segmentsRef st)"
    by (simp add: tick_strokes)
  have adv: "growIndexRef (snd (tick s st))
           = (if growIndexRef st < int (length (segmentsRef st))
              then growIndexRef st + growSpeed s else growIndexRef st)"
    using assms(1) by (simp add: tick_growIndex)
  have mono: "j \<le> k \<longrightarrow> growIndexRef (ticks s j st) \<le> growIndexRef (ticks s k st)"
    using ticks_growIndex_mono[OF assms(2)] by blast
  have bnd: "growIndexRef st < int (length (segmentsRef st)) + growSpeed s \<longrightarrow>
            growIndexRef (ticks s k st) < int (length (segmentsRef st)) + growSpeed s"
    using ticks_growIndex_bound by blast
  have ex: "map (\<lambda>i. growIndexRef (ticks s i st)) [0, 1, 2, 3, 4, 5, 6, 7, 8]
              = [0, 80, 160, 240, 320, 400, 480, 560, 560]
            \<and> map (\<lambda>i. length (strokes (fst (tick s (ticks s i st))))) [0, 1, 2, 3, 4, 5, 6, 7, 8]
              = [0, 80, 160, 240, 320, 400, 480, 500, 500]"
    if h: "growSpeed s = 80" "length (segmentsRef st) = 500" "growIndexRef st = 0"
  proof -
    have seq: "map (\<lambda>i. growIndexRef (ticks s i st)) [0, Suc 0, 2, 3, 4, 5, 6, 7, 8]
           = [0, 80, 160, 240, 320, 400, 480, 560, 560]"
      by (rule grow_sequence[OF assms(1) h])
    then show ?thesis
      using h(2) by (simp add: drawn clamp_def del: ticks.simps)
  qed
  have mx: "growIndexRef (ticks s k st)
           \<le> max (growIndexRef st) (int (length (segmentsRef st)) - 1 + growSpeed s)"
    by (rule ticks_growIndex_max)
  have stay: "growIndexRef (ticks s k st) = growIndexRef st"
    if "int (length (segmentsRef st)) \<le> growIndexRef st"
    using that by (induction k) (simp_all add: ticks_growIndex_Suc del: ticks.simps(2))
  show ?thesis using drawn le adv mono mx bnd stay ex by blast
qed

theorem reveal_cutoff_per_frame_witness:
  "growAnimation defaultSettings \<and> 0 \<le> growSpeed defaultSettings
   \<and> growSpeed defaultSettings = 80 \<and> length (segmentsRef exampleState) = 500
   \<and> growIndexRef exampleState = 0
   \<and> (2::nat) \<le> 7
   \<and> growIndexRef (ticks defaultSettings 2 exampleState)
        \<le> growIndexRef (ticks defaultSettings 7 exampleState)
   \<and> growIndexRef exampleState
        < int (length (segmentsRef exampleState)) + growSpeed defaultSettings
   \<and> growIndexRef (ticks defaultSettings 7 exampleState) < 580
   \<and> growIndexRef (ticks defaultSettings 7 exampleState)
        \<le> max (growIndexRef exampleState)
            (int (length (segmentsRef exampleState)) - 1 + growSpeed defaultSettings)
   \<and> growAnimation (defaultSettings\<lparr>growSpeed := 10\<rparr>)
   \<and> 0 \<le> growSpeed (defaultSettings\<lparr>growSpeed := 10\<rparr>)
   \<and> int (length (segmentsRef (ticks defaultSettings 7 exampleState)))
        \<le> growIndexRef (ticks defaultSettings 7 exampleState)
   \<and> growIndexRef (ticks (defaultSettings\<lparr>growSpeed := 10\<rparr>) 3
         (ticks defaultSettings 7 exampleState)) = 560
   \<and> map (\<lambda>i. growIndexRef (ticks defaultSettings i exampleState)) [0, 1, 2, 3, 4, 5, 6, 7, 8]
        = [0, 80, 160, 240, 320, 400, 480, 560, 560]
   \<and> map (\<lambda>i. length (strokes (fst (tick defaultSettings (ticks defaultSettings i exampleState)))))
        [0, 1, 2, 3, 4, 5, 6, 7, 8]
        = [0, 80, 160, 240, 320, 400, 480, 500, 500]"
proof -
  have g: "growAnimation defaultSettings" and n: "0 \<le> growSpeed defaultSettings"
    and e: "growSpeed defaultSettings = 80" "length (segmentsRef exampleState) = 500"
      "growIndexRef exampleState = 0"
    by (simp_all add: defaultSettings_def exampleState_def initialState_def)
  note t = reveal_cutoff_per_frame[OF g n, where st = exampleState and j = 2 and k = 7]
  from t e have a:
    "growIndexRef (ticks defaultSettings 2 exampleState)
        \<le> growIndexRef (ticks defaultSettings 7 exampleState)"
    "growIndexRef (ticks defaultSettings 7 exampleState) < 580"
    "map (\<lambda>i. growIndexRef (ticks defaultSettings i exampleState)) [0, 1, 2, 3, 4, 5, 6, 7, 8]
        = [0, 80, 160, 240, 320, 400, 480, 560, 560]"
    "map (\<lambda>i. length (strokes (fst (tick defaultSettings (ticks defaultSettings i exampleState)))))
        [0, 1, 2, 3, 4, 5, 6, 7, 8]
        = [0, 80, 160, 240, 320, 400, 480, 500, 500]"
    by simp_all
  from t have m: "growIndexRef (ticks defaultSettings 7 exampleState)
        \<le> max (growIndexRef exampleState)
            (int (length (segmentsRef exampleState)) - 1 + growSpeed defaultSettings)"
    by blast
  have g': "growAnimation (defaultSettings\<lparr>growSpeed := 10\<rparr>)"
    and n': "0 \<le> growSpeed (defaultSettings\<lparr>growSpeed := 10\<rparr>)"
    by (simp_all add: defaultSettings_def)
  have v: "growIndexRef (ticks defaultSettings 7 exampleState) = 560"
    using a(3) by simp
  have o: "int (length (segmentsRef (ticks defaultSettings 7 exampleState)))
        \<le> growIndexRef (ticks defaultSettings 7 exampleState)"
    unfolding v by (simp add: e)
  have "growIndexRef (ticks (defaultSettings\<lparr>growSpeed := 10\<rparr>) 3
         (ticks defaultSettings 7 exampleState))
        = growIndexRef (ticks defaultSettings 7 exampleState)"
    using reveal_cutoff_per_frame[OF g' n', where st = "ticks defaultSettings 7 exampleState"
        and k = 3] o
    by blast
  then have w: "growIndexRef (ticks (defaultSettings\<lparr>growSpeed := 10\<rparr>) 3
         (ticks defaultSettings 7 exampleState)) = 560"
    unfolding v .
  show ?thesis
    using g n e a m g' n' o w by (simp del: ticks.simps)
qed

section \<open>Loop restarts, rebuilds and the missing canvas\<close>

lemma stopLoop_fields [simp]:
  "windTimeRef (stopLoop st) = windTimeRef st"
  "growIndexRef (stopLoop st) = growIndexRef st"
  "segmentsRef (stopLoop st) = segmentsRef st"
  "canvasRef (stopLoop st) = canvasRef st"
  by (simp_all add: stopLoop_def split: option.splits)

lemma startLoop_fields [simp]:
  "windTimeRef (startLoop st) = windTimeRef st"
  "growIndexRef (startLoop st) = growIndexRef st"
  "segmentsRef (startLoop st) = segmentsRef st"
  "canvasRef (startLoop st) = canvasRef st"
  by (simp_all add: startLoop_def Let_def requestAnimationFrame_def split: option.splits)

lemma buildSegments_fields [simp]:
  "windTimeRef (buildSegments s rnd st) = windTimeRef st"
  "canvasRef (buildSegments s rnd st) = canvasRef st"
  by (simp_all add: buildSegments_def Let_def split: option.splits)

lemma runEffects_same_structure:
  assumes "structureDeps new = structureDeps old"
  shows "windTimeRef (runEffects old bgOld new bgNew rnd st) = windTimeRef st"
    and "growIndexRef (runEffects old bgOld new bgNew rnd st) = growIndexRef st"
    and "segmentsRef (runEffects old bgOld new bgNew rnd st) = segmentsRef st"
  using assms by (simp_all add: runEffects_def Let_def)

lemma drawTreeOnce_canvas:
  assumes "canvasRef st = Some c" and "has2d c"
  shows "snd (drawTreeOnce s rnd st) =
           (buildSegments s rnd st)
             \<lparr>growIndexRef := int (length (segmentsRef (buildSegments s rnd st)))\<rparr>"
  using assms by (simp add: drawTreeOnce_def Let_def drawSegmentsFrame_state)

text \<open>
  Claim C7. Stopping and starting the loop leaves wind time, reveal counter and segment
  list as they are, and so does a change of settings that touches no structural field.
  A rebuild on the mounted canvas sets the reveal counter to 0, a frame never lowers it,
  and the explicit draw rebuilds and leaves the counter at the length of the new list.
\<close>

theorem restart_keeps_animation_state:
  "windTimeRef (startLoop (stopLoop st)) = windTimeRef st
   \<and> growIndexRef (startLoop (stopLoop st)) = growIndexRef st
   \<and> segmentsRef (startLoop (stopLoop st)) = segmentsRef st
   \<and> (structureDeps new = structureDeps old \<longrightarrow>
        windTimeRef (runEffects old bgOld new bgNew rnd st) = windTimeRef st
        \<and> growIndexRef (runEffects old bgOld new bgNew rnd st) = growIndexRef st
        \<and> segmentsRef (runEffects old bgOld new bgNew rnd st) = segmentsRef st)
   \<and> (0 \<le> growSpeed s \<longrightarrow> growIndexRef st \<le> growIndexRef (snd (tick s st)))
   \<and> (canvasRef st = Some c \<and> has2d c \<longrightarrow>
        growIndexRef (buildSegments s rnd st) = 0
        \<and> windTimeRef (buildSegments s rnd st) = windTimeRef st)
   \<and> (canvasRef st = Some c \<and> has2d c \<and> structureDeps new \<noteq> structureDeps old \<longrightarrow>
        growIndexRef (runEffects old bgOld new bgNew rnd st) = 0
        \<and> windTimeRef (runEffects old bgOld new bgNew rnd st) = windTimeRef st)
   \<and> (canvasRef st = Some c \<and> has2d c \<longrightarrow>
        segmentsRef (snd (drawTreeOnce s rnd st)) = segmentsRef (buildSegments s rnd st)
        \<and> growIndexRef (snd (drawTreeOnce s rnd st))
            = int (length (segmentsRef (snd (drawTreeOnce s rnd st))))
        \<and> windTimeRef (snd (drawTreeOnce s rnd st)) = windTimeRef st)"
proof -
  have a: "structureDeps new = structureDeps old \<longrightarrow>
        windTimeRef (runEffects old bgOld new bgNew rnd st) = windTimeRef st
        \<and> growIndexRef (runEffects old bgOld new bgNew rnd st) = growIndexRef st
        \<and> segmentsRef (runEffects old bgOld new bgNew rnd st) = segmentsRef st"
    using runEffects_same_structure by blast
  have b: "0 \<le> growSpeed s \<longrightarrow> growIndexRef st \<le> growIndexRef (snd (tick s st))"
    by (simp add: tick_growIndex)
  have c: "canvasRef st = Some c \<and> has2d c \<longrightarrow>
        growIndexRef (buildSegments s rnd st) = 0
        \<and> windTimeRef (buildSegments s rnd st) = windTimeRef st"
    by (simp add: buildSegments_canvas)
  have d: "canvasRef st = Some c \<and> has2d c \<and> structureDeps new \<noteq> structureDeps old \<longrightarrow>
        growIndexRef (runEffects old bgOld new bgNew rnd st) = 0
        \<and> windTimeRef (runEffects old bgOld new bgNew rnd st) = windTimeRef st"
  proof (intro impI, elim conjE)
    assume cv: "canvasRef st = Some c" "has2d c" and ch: "structureDeps new \<noteq> structureDeps old"
    have "growIndexRef (buildSegments new rnd st') = 0" if "canvasRef st' = Some c" for st'
      using that cv(2) by (simp add: buildSegments_canvas)
    then show "growIndexRef (runEffects old bgOld new bgNew rnd st) = 0
        \<and> windTimeRef (runEffects old bgOld new bgNew rnd st) = windTimeRef st"
      using cv ch by (simp add: runEffects_def Let_def)
  qed
  have e: "canvasRef st = Some c \<and> has2d c \<longrightarrow>
        segmentsRef (snd (drawTreeOnce s rnd st)) = segmentsRef (buildSegments s rnd st)
        \<and> growIndexRef (snd (drawTreeOnce s rnd st))
            = int (length (segmentsRef (snd (drawTreeOnce s rnd st))))
        \<and> windTimeRef (snd (drawTreeOnce s rnd st)) = windTimeRef st"
    by (simp add: drawTreeOnce_canvas)
  show ?thesis using a b c d e by simp
qed

theorem restart_keeps_animation_state_witness:
  "windTimeRef (startLoop (stopLoop midGrowthState)) = 3
   \<and> growIndexRef (startLoop (stopLoop midGrowthState)) = 160
   \<and> structureDeps (defaultSettings\<lparr>windStrength := 8\<rparr>) = structureDeps defaultSettings
   \<and> windTimeRef (runEffects defaultSettings night (defaultSettings\<lparr>windStrength := 8\<rparr>) night
         (\<lambda>i. 1 / 2) midGrowthState) = 3
   \<and> growIndexRef (runEffects defaultSettings night (defaultSettings\<lparr>windStrength := 8\<rparr>) night
         (\<lambda>i. 1 / 2) midGrowthState) = 160
   \<and> 0 \<le> growSpeed defaultSettings
   \<and> growIndexRef midGrowthState \<le> growIndexRef (snd (tick defaultSettings midGrowthState))
   \<and> canvasRef midGrowthState = Some pageCanvas \<and> has2d pageCanvas
   \<and> growIndexRef (buildSegments defaultSettings (\<lambda>i. 1 / 2) midGrowthState) = 0
   \<and> structureDeps (defaultSettings\<lparr>depth := 5\<rparr>) \<noteq> structureDeps defaultSettings
   \<and> growIndexRef (runEffects defaultSettings night (defaultSettings\<lparr>depth := 5\<rparr>) night
         (\<lambda>i. 1 / 2) midGrowthState) = 0
   \<and> growIndexRef (snd (drawTreeOnce defaultSettings (\<lambda>i. 1 / 2) midGrowthState))
        = int (length (segmentsRef (snd (drawTreeOnce defaultSettings (\<lambda>i. 1 / 2)
                 midGrowthState))))"
proof -
  have f: "windTimeRef midGrowthState = 3" "growIndexRef midGrowthState = 160"
    "canvasRef midGrowthState = Some pageCanvas" "has2d pageCanvas"
    "0 \<le> growSpeed defaultSettings"
    "structureDeps (defaultSettings\<lparr>windStrength := 8\<rparr>) = structureDeps defaultSettings"
    "structureDeps (defaultSettings\<lparr>depth := 5\<rparr>) \<noteq> structureDeps defaultSettings"
    by (simp_all add: midGrowthState_def exampleState_def initialState_def pageCanvas_def
          defaultSettings_def structureDeps_def)
  show ?thesis
    using f
      restart_keeps_animation_state[where st = midGrowthState and s = defaultSettings
        and old = defaultSettings and new = "defaultSettings\<lparr>windStrength := 8\<rparr>"
        and bgOld = night and bgNew = night and rnd = "\<lambda>i. 1 / 2" and c = pageCanvas]
      restart_keeps_animation_state[where st = midGrowthState and s = defaultSettings
        and old = defaultSettings and new = "defaultSettings\<lparr>depth := 5\<rparr>"
        and bgOld = night and bgNew = night and rnd = "\<lambda>i. 1 / 2" and c = pageCanvas]
    by simp
qed

lemma drawTreeOnce_no_canvas:
  "canvasRef st = None \<or> (\<exists>c. canvasRef st = Some c \<and> \<not> has2d c) \<Longrightarrow>
   drawTreeOnce s rnd st = (None, st)"
  by (auto simp: drawTreeOnce_def Let_def buildSegments_no_canvas)

lemma downloadPNG_state: "snd (downloadPNG st) = st"
  by (simp add: downloadPNG_def split: option.splits)

lemma downloadPNG_without_context:
  "canvasRef st = Some c \<Longrightarrow> fst (downloadPNG st) = Some ''fractal-tree.png''"
  by (simp add: downloadPNG_def)

text \<open>
  Claim C9 as stated fails for the export: \<open>downloadPNG\<close> tests the canvas only and never
  asks for the 2D context, so on a mounted canvas without a context it still triggers the
  download of \<^verbatim>\<open>fractal-tree.png\<close>.
\<close>

theorem export_without_context_downloads:
  "canvasRef (midGrowthState\<lparr>canvasRef := Some (pageCanvas\<lparr>has2d := False\<rparr>)\<rparr>)
     = Some (pageCanvas\<lparr>has2d := False\<rparr>)
   \<and> \<not> has2d (pageCanvas\<lparr>has2d := False\<rparr>)
   \<and> fst (downloadPNG (midGrowthState\<lparr>canvasRef := Some (pageCanvas\<lparr>has2d := False\<rparr>)\<rparr>))
       = Some ''fractal-tree.png''
   \<and> fst (downloadPNG (midGrowthState\<lparr>canvasRef := Some (pageCanvas\<lparr>has2d := False\<rparr>)\<rparr>))
       \<noteq> None"
  by (simp add: downloadPNG_def)

text \<open>
  Claim C9, amended. When the canvas is not mounted, every entry point returns at its
  guard: \<open>buildSegments\<close>, \<open>drawTreeOnce\<close> and \<open>downloadPNG\<close> draw nothing, trigger no
  download and leave the state (segment list, reveal counter, wind time and the rest)
  exactly as it was. When the canvas is mounted but has no 2D context, \<open>buildSegments\<close>
  and \<open>drawTreeOnce\<close> do the same, while \<open>downloadPNG\<close> triggers the download as on any
  mounted canvas, still leaving the state as it was. None of the three has a failing
  branch.
\<close>

theorem missing_surface_entry_points:
  "(canvasRef st = None \<or> (\<exists>c. canvasRef st = Some c \<and> \<not> has2d c) \<longrightarrow>
      buildSegments s rnd st = st \<and> drawTreeOnce s rnd st = (None, st))
   \<and> (canvasRef st = None \<longrightarrow> downloadPNG st = (None, st))
   \<and> (canvasRef st = Some c \<longrightarrow> downloadPNG st = (Some ''fractal-tree.png'', st))"
proof -
  have a: "buildSegments s rnd st = st \<and> drawTreeOnce s rnd st = (None, st)"
    if "canvasRef st = None \<or> (\<exists>c. canvasRef st = Some c \<and> \<not> has2d c)"
    using buildSegments_no_canvas[OF that] drawTreeOnce_no_canvas[OF that] by simp
  have b: "canvasRef st = None \<longrightarrow> downloadPNG st = (None, st)"
    by (simp add: downloadPNG_def)
  have c: "canvasRef st = Some c \<longrightarrow> downloadPNG st = (Some ''fractal-tree.png'', st)"
    by (simp add: downloadPNG_def)
  show ?thesis using a b c by blast
qed

theorem missing_surface_entry_points_witness:
  "canvasRef (midGrowthState\<lparr>canvasRef := None\<rparr>) = None
   \<and> buildSegments defaultSettings (\<lambda>i. 1 / 2) (midGrowthState\<lparr>canvasRef := None\<rparr>)
        = midGrowthState\<lparr>canvasRef := None\<rparr>
   \<and> drawTreeOnce defaultSettings (\<lambda>i. 1 / 2) (midGrowthState\<lparr>canvasRef := None\<rparr>)
        = (None, midGrowthState\<lparr>canvasRef := None\<rparr>)
   \<and> downloadPNG (midGrowthState\<lparr>canvasRef := None\<rparr>)
        = (None, midGrowthState\<lparr>canvasRef := None\<rparr>)
   \<and> canvasRef (midGrowthState\<lparr>canvasRef := Some (pageCanvas\<lparr>has2d := False\<rparr>)\<rparr>)
        = Some (pageCanvas\<lparr>has2d := False\<rparr>)
   \<and> \<not> has2d (pageCanvas\<lparr>has2d := False\<rparr>)
   \<and> buildSegments defaultSettings (\<lambda>i. 1 / 2)
         (midGrowthState\<lparr>canvasRef := Some (pageCanvas\<lparr>has2d := False\<rparr>)\<rparr>)
        = midGrowthState\<lparr>canvasRef := Some (pageCanvas\<lparr>has2d := False\<rparr>)\<rparr>
   \<and> drawTreeOnce defaultSettings (\<lambda>i. 1 / 2)
         (midGrowthState\<lparr>canvasRef := Some (pageCanvas\<lparr>has2d := False\<rparr>)\<rparr>)
        = (None, midGrowthState\<lparr>canvasRef := Some (pageCanvas\<lparr>has2d := False\<rparr>)\<rparr>)
   \<and> downloadPNG (midGrowthState\<lparr>canvasRef := Some (pageCanvas\<lparr>has2d := False\<rparr>)\<rparr>)
        = (Some ''fractal-tree.png'',
           midGrowthState\<lparr>canvasRef := Some (pageCanvas\<lparr>has2d := False\<rparr>)\<rparr>)
   \<and> growIndexRef (snd (downloadPNG
         (midGrowthState\<lparr>canvasRef := Some (pageCanvas\<lparr>has2d := False\<rparr>)\<rparr>))) = 160"
proof -
  have g: "growIndexRef midGrowthState = 160"
    by (simp add: midGrowthState_def)
  show ?thesis
    using missing_surface_entry_points[where st = "midGrowthState\<lparr>canvasRef := None\<rparr>"
        and s = defaultSettings and rnd = "\<lambda>i. 1 / 2" and c = pageCanvas]
      missing_surface_entry_points[where
        st = "midGrowthState\<lparr>canvasRef := Some (pageCanvas\<lparr>has2d := False\<rparr>)\<rparr>"
        and s = defaultSettings and rnd = "\<lambda>i. 1 / 2" and c = "pageCanvas\<lparr>has2d := False\<rparr>"]
      g
    by simp
qed

section \<open>Wind strength: geometry versus rendering\<close>

lemma drawSegment_same_wind:
  assumes "getWindAngle s' t (depthLeft seg) (totalDepth seg)
             = getWindAngle s t (depthLeft seg) (totalDepth seg)"
    and "leafMode s' = leafMode s" and "preset s' = preset s"
  shows "drawSegment s' t seg = drawSegment s t seg"
  using assms by (simp add: drawSegment_def Let_def branchColor_def)

text \<open>Two directions less than a full turn apart give different points on a circle.\<close>

lemma polar_differs:
  assumes "r \<noteq> 0" and "p \<noteq> q" and "\<bar>p - q\<bar> < 2 * pi"
  shows "(px + r * cos p, py - r * sin p) \<noteq> (px + r * cos q, py - r * sin q)"
proof
  assume "(px + r * cos p, py - r * sin p) = (px + r * cos q, py - r * sin q)"
  then have "sin p = sin q \<and> cos p = cos q" using assms(1) by simp
  then obtain n :: int where n: "p = q + 2 * pi * n"
    using sin_cos_eq_iff[of p q] by blast
  then have "\<bar>2 * pi * real_of_int n\<bar> < 2 * pi" using assms(3) by simp
  then have "\<bar>real_of_int n\<bar> < 1"
    by (simp add: abs_mult)
  then have "n = 0" by linarith
  with n assms(2) show False by simp
qed

lemma sway_changes_end_point:
  assumes wind: "animateWind s" and sn: "sin t \<noteq> 0"
    and d: "0 < depthLeft seg" "depthLeft seg < totalDepth seg"
    and w: "w \<noteq> windStrength s" "\<bar>w - windStrength s\<bar> < 360"
    and len: "(x1 seg, y1 seg) \<noteq> (x2 seg, y2 seg)"
  shows "(toX (drawSegment (s\<lparr>windStrength := w\<rparr>) t seg),
          toY (drawSegment (s\<lparr>windStrength := w\<rparr>) t seg))
         \<noteq> (toX (drawSegment s t seg), toY (drawSegment s t seg))"
proof -
  define lf where "lf = 1 - real_of_int (depthLeft seg) / real_of_int (totalDepth seg)"
  define dx where "dx = x2 seg - x1 seg"
  define dy where "dy = y2 seg - y1 seg"
  define r where "r = sqrt (dx * dx + dy * dy)"
  define base where "base = atan2 (- dy) dx"
  define p where "p = base + (sin t * (w * lf) * pi) / 180"
  define q where "q = base + (sin t * (windStrength s * lf) * pi) / 180"
  have ratio: "0 < real_of_int (depthLeft seg) / real_of_int (totalDepth seg)"
    "real_of_int (depthLeft seg) / real_of_int (totalDepth seg) < 1"
    using d by simp_all
  then have lf: "0 < lf" "lf < 1" by (simp_all add: lf_def)
  have "dx \<noteq> 0 \<or> dy \<noteq> 0" using len by (auto simp: dx_def dy_def)
  then have "0 < dx * dx + dy * dy"
    by (metis add_pos_nonneg add_nonneg_pos zero_le_square zero_less_mult_iff not_square_less_zero linorder_neqE_linordered_idom)
  then have "0 < r" unfolding r_def by (rule real_sqrt_gt_zero)
  then have r: "r \<noteq> 0" by simp
  have diff: "p - q = (sin t * lf * (w - windStrength s)) * pi / 180"
    by (simp add: p_def q_def algebra_simps diff_divide_distrib)
  have "sin t * lf * (w - windStrength s) \<noteq> 0" using sn lf w by simp
  then have pq: "p \<noteq> q" using diff by auto
  have "\<bar>sin t * lf * (w - windStrength s)\<bar> = \<bar>sin t\<bar> * lf * \<bar>w - windStrength s\<bar>"
    using lf by (simp add: abs_mult)
  also have "\<dots> \<le> 1 * 1 * \<bar>w - windStrength s\<bar>"
    using lf by (intro mult_mono) auto
  also have "\<dots> < 360" using w by simp
  finally have "\<bar>sin t * lf * (w - windStrength s)\<bar> * (pi / 180) < 360 * (pi / 180)"
    by (intro mult_strict_right_mono) auto
  then have small: "\<bar>p - q\<bar> < 2 * pi"
    unfolding diff by (simp add: abs_mult)
  have e1: "(toX (drawSegment (s\<lparr>windStrength := w\<rparr>) t seg),
             toY (drawSegment (s\<lparr>windStrength := w\<rparr>) t seg))
            = (x1 seg + r * cos p, y1 seg - r * sin p)"
    using wind
    by (simp add: drawSegment_def Let_def getWindAngle_def p_def base_def r_def dx_def dy_def
          lf_def)
  have e2: "(toX (drawSegment s t seg), toY (drawSegment s t seg))
            = (x1 seg + r * cos q, y1 seg - r * sin q)"
    using wind
    by (simp add: drawSegment_def Let_def getWindAngle_def q_def base_def r_def dx_def dy_def
          lf_def)
  show ?thesis unfolding e1 e2 by (rule polar_differs[OF r pq small])
qed

lemma tick_frame_cong:
  assumes "segmentsRef st' = segmentsRef st" and "growIndexRef st' = growIndexRef st"
    and "windTimeRef st' = windTimeRef st"
    and "windSpeed s' = windSpeed s" and "growAnimation s' = growAnimation s"
    and "preset s' = preset s"
    and "\<And>seg. seg \<in> set (segmentsRef st) \<Longrightarrow>
           drawSegment s' (windTimeRef st + 0.02 * windSpeed s) seg
             = drawSegment s (windTimeRef st + 0.02 * windSpeed s) seg"
  shows "fst (tick s' st') = fst (tick s st)"
proof -
  have "map (drawSegment s' (windTimeRef st + 0.02 * windSpeed s)) (take m (segmentsRef st))
          = map (drawSegment s (windTimeRef st + 0.02 * windSpeed s)) (take m (segmentsRef st))"
    for m
    using assms(7) by (intro map_cong refl) (auto dest: in_set_takeD)
  moreover have "map (drawSegment s' (windTimeRef st + 0.02 * windSpeed s)) (segmentsRef st)
          = map (drawSegment s (windTimeRef st + 0.02 * windSpeed s)) (segmentsRef st)"
    using assms(7) by (intro map_cong refl) auto
  ultimately show ?thesis
    using assms(1-6) by (simp add: tick_def drawSegmentsFrame_def Let_def)
qed

lemma twoLevel_segments:
  "segmentsRef twoLevelState =
     [\<lparr>x1 = 500, y1 = 630, x2 = 500, y2 = 480, thick = 10, depthLeft = 2, totalDepth = 2\<rparr>,
      pushedSegment twoLevelSettings (\<lambda>i. 1 / 2) 2 500 480 (150 * 0.67) (90 - 25) 1
        (10 * 0.75) 1,
      pushedSegment twoLevelSettings (\<lambda>i. 1 / 2) 2 500 480 (150 * 0.67) (90 + 25) 1
        (10 * 0.75) 2]"
proof -
  have cv: "canvasRef initialState = Some pageCanvas" "has2d pageCanvas"
    by (simp_all add: initialState_def pageCanvas_def)
  have f: "depth twoLevelSettings = 2" "length_s twoLevelSettings = 150"
    "thickness twoLevelSettings = 10" "shrink twoLevelSettings = 0.67"
    "angle twoLevelSettings = 25"
    by (simp_all add: twoLevelSettings_def defaultSettings_def)
  have root: "pushedSegment twoLevelSettings (\<lambda>i. 1 / 2) 2 500 630 150 90 2 10 0
     = \<lparr>x1 = 500, y1 = 630, x2 = 500, y2 = 480, thick = 10, depthLeft = 2, totalDepth = 2\<rparr>"
    by (simp add: pushedSegment_def randomAngle_def cos_sin_quarter)
  have n2: "\<not> ((2::int) \<le> 0 \<or> (150::real) < 2)" by simp
  have n1: "\<not> ((1::int) \<le> 0 \<or> (201::real) / 2 < 2)" by simp
  have child: "emitted twoLevelSettings (\<lambda>i. 1 / 2) 2 500 480 (201 / 2) a 1 (15 / 2) n
               = [pushedSegment twoLevelSettings (\<lambda>i. 1 / 2) 2 500 480 (201 / 2) a 1
                    (15 / 2) n]" for a n
    by (subst emitted_step[OF n1]) (simp add: Let_def emitted_stop)
  have "emitted twoLevelSettings (\<lambda>i. 1 / 2) 2 500 630 150 90 2 10 0 =
     [\<lparr>x1 = 500, y1 = 630, x2 = 500, y2 = 480, thick = 10, depthLeft = 2, totalDepth = 2\<rparr>,
      pushedSegment twoLevelSettings (\<lambda>i. 1 / 2) 2 500 480 (150 * 0.67) (90 - 25) 1
        (10 * 0.75) 1,
      pushedSegment twoLevelSettings (\<lambda>i. 1 / 2) 2 500 480 (150 * 0.67) (90 + 25) 1
        (10 * 0.75) 2]"
    by (subst emitted_step[OF n2]) (simp add: Let_def root f child numeral_2_eq_2)
  then show ?thesis
    by (simp add: twoLevelState_def drawTreeOnce_canvas[OF cv] buildSegments_canvas[OF cv] f
          pageCanvas_def)
qed

lemma scenario_segments:
  "segmentsRef (snd (drawTreeOnce scenarioSettings (\<lambda>i. 1 / 2) initialState)) = [scenarioRoot]"
  "growIndexRef (snd (drawTreeOnce scenarioSettings (\<lambda>i. 1 / 2) initialState)) = 1"
proof -
  have cv: "canvasRef initialState = Some pageCanvas" "has2d pageCanvas"
    by (simp_all add: initialState_def pageCanvas_def)
  have ns: "\<not> ((1::int) \<le> 0 \<or> (150::real) < 2)" by simp
  have b: "segmentsRef (buildSegments scenarioSettings (\<lambda>i. 1 / 2) initialState)
             = [scenarioRoot]"
    by (simp add: buildSegments_canvas[OF cv] scenarioSettings_def defaultSettings_def
          pageCanvas_def emitted_step[OF ns] Let_def emitted_stop pushedSegment_def
          randomAngle_def cos_sin_quarter scenarioRoot_def)
  show "segmentsRef (snd (drawTreeOnce scenarioSettings (\<lambda>i. 1 / 2) initialState))
          = [scenarioRoot]"
    "growIndexRef (snd (drawTreeOnce scenarioSettings (\<lambda>i. 1 / 2) initialState)) = 1"
    by (simp_all add: drawTreeOnce_canvas[OF cv] b)
qed

lemma windStrength_frame_unchanged:
  assumes "\<And>seg. seg \<in> set (segmentsRef st) \<Longrightarrow>
             getWindAngle (old\<lparr>windStrength := w\<rparr>) (windTimeRef st + 0.02 * windSpeed old)
               (depthLeft seg) (totalDepth seg)
             = getWindAngle old (windTimeRef st + 0.02 * windSpeed old)
                 (depthLeft seg) (totalDepth seg)"
  shows "fst (tick (old\<lparr>windStrength := w\<rparr>)
                (runEffects old bg (old\<lparr>windStrength := w\<rparr>) bg rnd st))
         = fst (tick old st)"
proof -
  have sd: "structureDeps (old\<lparr>windStrength := w\<rparr>) = structureDeps old"
    by (simp add: structureDeps_def)
  show ?thesis
  proof (rule tick_frame_cong)
    fix seg
    assume "seg \<in> set (segmentsRef st)"
    from assms[OF this]
    show "drawSegment (old\<lparr>windStrength := w\<rparr>) (windTimeRef st + 0.02 * windSpeed old) seg
            = drawSegment old (windTimeRef st + 0.02 * windSpeed old) seg"
      by (rule drawSegment_same_wind) simp_all
  qed (simp_all add: runEffects_same_structure[OF sd])
qed

text \<open>
  Claim C6 as stated fails in its second half: with wind animation disabled
  \<open>getWindAngle\<close> returns 0 whatever the wind strength, so the next frame is the same; and
  with wind enabled the one-segment tree of the depth-1 scenario is painted the same too,
  its only segment being the trunk base.
\<close>

theorem windStrength_change_without_effect:
  "windStrength (calmSettings\<lparr>windStrength := 8\<rparr>) \<noteq> windStrength calmSettings
   \<and> strokes (fst (tick calmSettings
         (snd (drawTreeOnce calmSettings (\<lambda>i. 1 / 2) initialState)))) \<noteq> []
   \<and> fst (tick (calmSettings\<lparr>windStrength := 8\<rparr>)
         (runEffects calmSettings night (calmSettings\<lparr>windStrength := 8\<rparr>) night (\<lambda>i. 1 / 2)
            (snd (drawTreeOnce calmSettings (\<lambda>i. 1 / 2) initialState))))
       = fst (tick calmSettings (snd (drawTreeOnce calmSettings (\<lambda>i. 1 / 2) initialState)))
   \<and> animateWind scenarioSettings
   \<and> windStrength (scenarioSettings\<lparr>windStrength := 8\<rparr>) \<noteq> windStrength scenarioSettings
   \<and> strokes (fst (tick scenarioSettings
         (snd (drawTreeOnce scenarioSettings (\<lambda>i. 1 / 2) initialState)))) \<noteq> []
   \<and> fst (tick (scenarioSettings\<lparr>windStrength := 8\<rparr>)
         (runEffects scenarioSettings night (scenarioSettings\<lparr>windStrength := 8\<rparr>) night
            (\<lambda>i. 1 / 2) (snd (drawTreeOnce scenarioSettings (\<lambda>i. 1 / 2) initialState))))
       = fst (tick scenarioSettings
           (snd (drawTreeOnce scenarioSettings (\<lambda>i. 1 / 2) initialState)))"
proof -
  have cv: "canvasRef initialState = Some pageCanvas" "has2d pageCanvas"
    by (simp_all add: initialState_def pageCanvas_def)
  let ?stA = "snd (drawTreeOnce calmSettings (\<lambda>i. 1 / 2) initialState)"
  let ?stB = "snd (drawTreeOnce scenarioSettings (\<lambda>i. 1 / 2) initialState)"
  have w: "windStrength (calmSettings\<lparr>windStrength := 8\<rparr>) \<noteq> windStrength calmSettings"
    "windStrength (scenarioSettings\<lparr>windStrength := 8\<rparr>) \<noteq> windStrength scenarioSettings"
    "animateWind scenarioSettings"
    by (simp_all add: calmSettings_def scenarioSettings_def defaultSettings_def)
  have neA: "segmentsRef ?stA \<noteq> []"
    by (simp add: drawTreeOnce_canvas[OF cv] buildSegments_canvas[OF cv] emitted_Nil_iff)
       (simp add: calmSettings_def defaultSettings_def)
  have gA: "growIndexRef ?stA = int (length (segmentsRef ?stA))"
    by (simp add: drawTreeOnce_canvas[OF cv])
  have sA: "strokes (fst (tick calmSettings ?stA)) \<noteq> []"
    using neA by (simp add: tick_strokes gA clamp_def)
  have eA: "fst (tick (calmSettings\<lparr>windStrength := 8\<rparr>)
         (runEffects calmSettings night (calmSettings\<lparr>windStrength := 8\<rparr>) night (\<lambda>i. 1 / 2)
            ?stA)) = fst (tick calmSettings ?stA)"
    by (rule windStrength_frame_unchanged)
       (simp add: getWindAngle_def calmSettings_def defaultSettings_def)
  have sB: "strokes (fst (tick scenarioSettings ?stB)) \<noteq> []"
    by (simp add: tick_strokes scenario_segments clamp_def)
  have eB: "fst (tick (scenarioSettings\<lparr>windStrength := 8\<rparr>)
         (runEffects scenarioSettings night (scenarioSettings\<lparr>windStrength := 8\<rparr>) night
            (\<lambda>i. 1 / 2) ?stB)) = fst (tick scenarioSettings ?stB)"
    by (rule windStrength_frame_unchanged)
       (simp add: scenario_segments scenarioRoot_def getWindAngle_trunk)
  show ?thesis using w sA eA sB eB by simp
qed

text \<open>
  Claim C6, amended. Changing only the wind strength runs no rebuild: segment list, reveal
  counter and wind time are what they were. The frame of the next tick is unchanged when
  wind animation is disabled. When it is enabled, the rendered end point of a drawn segment
  does change, provided that the sine of the wind time of that tick is not 0, the segment
  lies above the trunk base (\<open>0 < depthLeft < totalDepth\<close>) and has non-zero length, and
  the two wind strengths differ by less than 360 degrees.
\<close>

theorem windStrength_only_change:
  assumes "new = old\<lparr>windStrength := w\<rparr>"
  shows "segmentsRef (runEffects old bg new bg rnd st) = segmentsRef st
       \<and> growIndexRef (runEffects old bg new bg rnd st) = growIndexRef st
       \<and> windTimeRef (runEffects old bg new bg rnd st) = windTimeRef st
       \<and> (\<not> animateWind old \<longrightarrow>
            fst (tick new (runEffects old bg new bg rnd st)) = fst (tick old st))
       \<and> (animateWind old \<and> i < length (strokes (fst (tick old st)))
            \<and> sin (windTimeRef st + 0.02 * windSpeed old) \<noteq> 0
            \<and> 0 < depthLeft (segmentsRef st ! i)
            \<and> depthLeft (segmentsRef st ! i) < totalDepth (segmentsRef st ! i)
            \<and> (x1 (segmentsRef st ! i), y1 (segmentsRef st ! i))
                 \<noteq> (x2 (segmentsRef st ! i), y2 (segmentsRef st ! i))
            \<and> w \<noteq> windStrength old \<and> \<bar>w - windStrength old\<bar> < 360 \<longrightarrow>
            (toX (strokes (fst (tick new (runEffects old bg new bg rnd st))) ! i),
             toY (strokes (fst (tick new (runEffects old bg new bg rnd st))) ! i))
            \<noteq> (toX (strokes (fst (tick old st)) ! i), toY (strokes (fst (tick old st)) ! i)))"
proof -
  let ?st' = "runEffects old bg new bg rnd st"
  let ?t = "windTimeRef st + 0.02 * windSpeed old"
  have sd: "structureDeps new = structureDeps old"
    by (simp add: assms structureDeps_def)
  note same = runEffects_same_structure[OF sd, of bg bg rnd st]
  have calm: "fst (tick new ?st') = fst (tick old st)" if "\<not> animateWind old"
    unfolding assms using that by (intro windStrength_frame_unchanged) (simp add: getWindAngle_def)
  have moved: "(toX (strokes (fst (tick new ?st')) ! i), toY (strokes (fst (tick new ?st')) ! i))
            \<noteq> (toX (strokes (fst (tick old st)) ! i), toY (strokes (fst (tick old st)) ! i))"
    if h: "animateWind old" "i < length (strokes (fst (tick old st)))" "sin ?t \<noteq> 0"
      "0 < depthLeft (segmentsRef st ! i)"
      "depthLeft (segmentsRef st ! i) < totalDepth (segmentsRef st ! i)"
      "(x1 (segmentsRef st ! i), y1 (segmentsRef st ! i))
         \<noteq> (x2 (segmentsRef st ! i), y2 (segmentsRef st ! i))"
      "w \<noteq> windStrength old" "\<bar>w - windStrength old\<bar> < 360"
  proof -
    define m where "m = nat (if growAnimation old
                   then clamp (growIndexRef st) 0 (int (length (segmentsRef st)))
                   else int (length (segmentsRef st)))"
    have so: "strokes (fst (tick old st)) = map (drawSegment old ?t) (take m (segmentsRef st))"
      by (simp add: tick_strokes m_def)
    have sn: "strokes (fst (tick new ?st')) = map (drawSegment new ?t) (take m (segmentsRef st))"
      by (simp add: tick_strokes same m_def) (simp add: assms)
    have i: "i < length (take m (segmentsRef st))" using h(2) so by simp
    then have nth: "take m (segmentsRef st) ! i = segmentsRef st ! i" by simp
    have "strokes (fst (tick old st)) ! i = drawSegment old ?t (segmentsRef st ! i)"
      unfolding so using i nth by (simp only: nth_map)
    moreover have "strokes (fst (tick new ?st')) ! i = drawSegment new ?t (segmentsRef st ! i)"
      unfolding sn using i nth by (simp only: nth_map)
    ultimately show ?thesis
      using sway_changes_end_point[OF h(1) h(3) h(4) h(5) h(7) h(8) h(6)]
      unfolding assms by simp
  qed
  show ?thesis using same calm moved by blast
qed

lemma sin_small_pos: "0 < x \<Longrightarrow> x < 2 \<Longrightarrow> sin x \<noteq> (0::real)"
  using sin_gt_zero[of x] pi_ge_two by force

theorem windStrength_only_change_witness:
  "segmentsRef (runEffects twoLevelSettings night (twoLevelSettings\<lparr>windStrength := 8\<rparr>) night
       (\<lambda>i. 1 / 2) twoLevelState) = segmentsRef twoLevelState
   \<and> animateWind twoLevelSettings
   \<and> 1 < length (strokes (fst (tick twoLevelSettings twoLevelState)))
   \<and> sin (windTimeRef twoLevelState + 0.02 * windSpeed twoLevelSettings) \<noteq> 0
   \<and> 0 < depthLeft (segmentsRef twoLevelState ! 1)
   \<and> depthLeft (segmentsRef twoLevelState ! 1) < totalDepth (segmentsRef twoLevelState ! 1)
   \<and> (x1 (segmentsRef twoLevelState ! 1), y1 (segmentsRef twoLevelState ! 1))
        \<noteq> (x2 (segmentsRef twoLevelState ! 1), y2 (segmentsRef twoLevelState ! 1))
   \<and> (8::real) \<noteq> windStrength twoLevelSettings \<and> \<bar>8 - windStrength twoLevelSettings\<bar> < 360
   \<and> (toX (strokes (fst (tick (twoLevelSettings\<lparr>windStrength := 8\<rparr>)
                (runEffects twoLevelSettings night (twoLevelSettings\<lparr>windStrength := 8\<rparr>) night
                   (\<lambda>i. 1 / 2) twoLevelState))) ! 1),
        toY (strokes (fst (tick (twoLevelSettings\<lparr>windStrength := 8\<rparr>)
                (runEffects twoLevelSettings night (twoLevelSettings\<lparr>windStrength := 8\<rparr>) night
                   (\<lambda>i. 1 / 2) twoLevelState))) ! 1))
       \<noteq> (toX (strokes (fst (tick twoLevelSettings twoLevelState)) ! 1),
           toY (strokes (fst (tick twoLevelSettings twoLevelState)) ! 1))
   \<and> \<not> animateWind calmSettings
   \<and> fst (tick (calmSettings\<lparr>windStrength := 8\<rparr>)
         (runEffects calmSettings night (calmSettings\<lparr>windStrength := 8\<rparr>) night (\<lambda>i. 1 / 2)
            twoLevelState))
       = fst (tick calmSettings twoLevelState)"
proof -
  have cv: "canvasRef initialState = Some pageCanvas" "has2d pageCanvas"
    by (simp_all add: initialState_def pageCanvas_def)
  have f: "animateWind twoLevelSettings" "windStrength twoLevelSettings = 4"
    "windSpeed twoLevelSettings = 1.2" "growAnimation twoLevelSettings"
    "\<not> animateWind calmSettings"
    by (simp_all add: twoLevelSettings_def calmSettings_def defaultSettings_def)
  have st: "windTimeRef twoLevelState = 0" "growIndexRef twoLevelState = 3"
    using twoLevel_segments
    by (simp_all add: twoLevelState_def drawTreeOnce_canvas[OF cv])
       (simp add: initialState_def)
  have h2: "1 < length (strokes (fst (tick twoLevelSettings twoLevelState)))"
    by (simp add: tick_strokes twoLevel_segments st f clamp_def)
  have h3: "sin (windTimeRef twoLevelState + 0.02 * windSpeed twoLevelSettings) \<noteq> 0"
    unfolding st f by (rule sin_small_pos) simp_all
  have h4: "0 < depthLeft (segmentsRef twoLevelState ! 1)"
    and h5: "depthLeft (segmentsRef twoLevelState ! 1) < totalDepth (segmentsRef twoLevelState ! 1)"
    by (simp_all add: twoLevel_segments pushedSegment_def)
  have "0 < sin (65 * pi / 180)"
    using pi_gt_zero by (intro sin_gt_zero) simp_all
  then have h6: "(x1 (segmentsRef twoLevelState ! 1), y1 (segmentsRef twoLevelState ! 1))
        \<noteq> (x2 (segmentsRef twoLevelState ! 1), y2 (segmentsRef twoLevelState ! 1))"
    by (simp add: twoLevel_segments pushedSegment_def randomAngle_def twoLevelSettings_def)
  have h7: "(8::real) \<noteq> windStrength twoLevelSettings"
    and h8: "\<bar>8 - windStrength twoLevelSettings\<bar> < 360"
    by (simp_all add: f)
  note t = windStrength_only_change[OF refl, where old = twoLevelSettings and w = 8
      and bg = night and rnd = "\<lambda>i. 1 / 2" and st = twoLevelState and i = 1]
  note c = windStrength_only_change[OF refl, where old = calmSettings and w = 8
      and bg = night and rnd = "\<lambda>i. 1 / 2" and st = twoLevelState and i = 1]
  show ?thesis using t c f(1) f(5) h2 h3 h4 h5 h6 h7 h8 by blast
qed

section \<open>Order of the segment list\<close>

lemma shape_pushedSegment:
  "shape (pushedSegment s rnd td x y len a dl th n)
     = shape (pushedSegment s rnd' td x' y' len a' dl th n')"
  by (simp add: shape_def pushedSegment_def)

text \<open>Start point, direction and random source do not influence which calls stop.\<close>

lemma shape_emitted:
  "map shape (emitted s rnd td x y len a dl th n)
     = map shape (emitted s rnd' td x' y' len a' dl th n')"
proof (induction "nat dl" arbitrary: x y x' y' len a a' dl th n n')
  case 0
  then show ?case by (simp add: emitted_stop)
next
  case (Suc k)
  have k: "k = nat (dl - 1)" using Suc.hyps(2) by simp
  note IH = Suc.hyps(1)[OF k]
  show ?case
  proof (cases "dl \<le> 0 \<or> len < 2")
    case True
    then show ?thesis by (simp add: emitted_stop)
  next
    case False
    define sg where "sg = pushedSegment s rnd td x y len a dl th n"
    define L where "L = emitted s rnd td (x2 sg) (y2 sg) (len * shrink s) (a - angle s)
                          (dl - 1) (th * 0.75) (Suc n)"
    define R where "R = emitted s rnd td (x2 sg) (y2 sg) (len * shrink s) (a + angle s)
                          (dl - 1) (th * 0.75) (Suc n + length L)"
    define sg' where "sg' = pushedSegment s rnd' td x' y' len a' dl th n'"
    define L' where "L' = emitted s rnd' td (x2 sg') (y2 sg') (len * shrink s) (a' - angle s)
                          (dl - 1) (th * 0.75) (Suc n')"
    define R' where "R' = emitted s rnd' td (x2 sg') (y2 sg') (len * shrink s) (a' + angle s)
                          (dl - 1) (th * 0.75) (Suc n' + length L')"
    have e: "emitted s rnd td x y len a dl th n = sg # L @ R"
      using emitted_step[OF False, of s rnd td x y a th n]
      by (simp add: Let_def sg_def L_def R_def)
    have e': "emitted s rnd' td x' y' len a' dl th n' = sg' # L' @ R'"
      using emitted_step[OF False, of s rnd' td x' y' a' th n']
      by (simp add: Let_def sg'_def L'_def R'_def)
    have "shape sg = shape sg'" unfolding sg_def sg'_def by (rule shape_pushedSegment)
    moreover have "map shape L = map shape L'" unfolding L_def L'_def by (rule IH)
    moreover have "map shape R = map shape R'" unfolding R_def R'_def by (rule IH)
    ultimately show ?thesis unfolding e e' by simp
  qed
qed

text \<open>With randomness 0 the random source has no influence at all.\<close>

lemma emitted_no_randomness:
  assumes "randomness s = 0"
  shows "emitted s rnd td x y len a dl th n = emitted s rnd' td x y len a dl th n'"
proof (induction "nat dl" arbitrary: x y len a dl th n n')
  case 0
  then show ?case by (simp add: emitted_stop)
next
  case (Suc k)
  have k: "k = nat (dl - 1)" using Suc.hyps(2) by simp
  note IH = Suc.hyps(1)[OF k]
  show ?case
  proof (cases "dl \<le> 0 \<or> len < 2")
    case True
    then show ?thesis by (simp add: emitted_stop)
  next
    case False
    define sg where "sg = pushedSegment s rnd td x y len a dl th n"
    define L where "L = emitted s rnd td (x2 sg) (y2 sg) (len * shrink s) (a - angle s)
                          (dl - 1) (th * 0.75) (Suc n)"
    define R where "R = emitted s rnd td (x2 sg) (y2 sg) (len * shrink s) (a + angle s)
                          (dl - 1) (th * 0.75) (Suc n + length L)"
    define sg' where "sg' = pushedSegment s rnd' td x y len a dl th n'"
    define L' where "L' = emitted s rnd' td (x2 sg') (y2 sg') (len * shrink s) (a - angle s)
                          (dl - 1) (th * 0.75) (Suc n')"
    define R' where "R' = emitted s rnd' td (x2 sg') (y2 sg') (len * shrink s) (a + angle s)
                          (dl - 1) (th * 0.75) (Suc n' + length L')"
    have e: "emitted s rnd td x y len a dl th n = sg # L @ R"
      using emitted_step[OF False, of s rnd td x y a th n]
      by (simp add: Let_def sg_def L_def R_def)
    have e': "emitted s rnd' td x y len a dl th n' = sg' # L' @ R'"
      using emitted_step[OF False, of s rnd' td x y a th n']
      by (simp add: Let_def sg'_def L'_def R'_def)
    have sg: "sg = sg'"
      by (simp add: sg_def sg'_def pushedSegment_def randomAngle_def assms)
    have "L = L'" unfolding L_def L'_def sg by (rule IH)
    moreover have "R = R'" unfolding R_def R'_def sg by (rule IH)
    ultimately show ?thesis unfolding e e' using sg by simp
  qed
qed

lemma randomAngle_bound:
  assumes "0 \<le> randomness s" and "0 \<le> r" and "r < 1"
  shows "\<bar>randomAngle s r\<bar> \<le> randomness s"
proof -
  have "\<bar>r * 2 - 1\<bar> \<le> 1" using assms(2,3) by simp
  then have "\<bar>r * 2 - 1\<bar> * randomness s \<le> 1 * randomness s"
    using assms(1) by (intro mult_right_mono)
  then show ?thesis using assms(1) by (simp add: randomAngle_def abs_mult)
qed

text \<open>
  Claim C8. The list is in pre-order: a call of \<open>collect\<close> that does not stop appends its
  own segment, then all segments of its left child (direction \<open>angleDeg - angle\<close>), then
  all segments of its right child (direction \<open>angleDeg + angle\<close>). The list that
  \<open>buildSegments\<close> stores is what the root call produces from the empty array, so it is
  the root segment, then the root's left subtree, then its right subtree. Two builds of
  one configuration with different random sources give lists of the same length that
  agree position by position in thickness, remaining depth and total depth, and are equal
  when the randomness is 0; the perturbation of a segment's direction is at most the
  randomness in magnitude (for random numbers in [0, 1) and a non-negative randomness).
\<close>

theorem segments_in_preorder:
  "(\<not> (dl \<le> 0 \<or> len < 2) \<longrightarrow>
      (let sg = pushedSegment s rnd td x y len a dl th n;
           L = emitted s rnd td (x2 sg) (y2 sg) (len * shrink s) (a - angle s) (dl - 1)
                 (th * 0.75) (Suc n);
           R = emitted s rnd td (x2 sg) (y2 sg) (len * shrink s) (a + angle s) (dl - 1)
                 (th * 0.75) (Suc n + length L)
       in collect s rnd td x y len a dl th (segs, n)
            = (segs @ sg # L @ R, n + (1 + length L + length R))))
   \<and> (canvasRef st = Some c \<and> has2d c \<longrightarrow>
        segmentsRef (buildSegments s rnd st)
          = fst (collect s rnd (depth s) (width c / 2) (height c - 20) (length_s s) 90
                   (depth s) (thickness s) ([], 0)))
   \<and> (canvasRef st = Some c \<and> has2d c \<and> \<not> (depth s \<le> 0 \<or> length_s s < 2) \<longrightarrow>
        (let root = pushedSegment s rnd (depth s) (width c / 2) (height c - 20) (length_s s)
                      90 (depth s) (thickness s) 0;
             L = emitted s rnd (depth s) (x2 root) (y2 root) (length_s s * shrink s)
                   (90 - angle s) (depth s - 1) (thickness s * 0.75) (Suc 0);
             R = emitted s rnd (depth s) (x2 root) (y2 root) (length_s s * shrink s)
                   (90 + angle s) (depth s - 1) (thickness s * 0.75) (Suc 0 + length L)
         in segmentsRef (buildSegments s rnd st) = root # L @ R))
   \<and> map shape (segmentsRef (buildSegments s rnd st))
       = map shape (segmentsRef (buildSegments s rnd' st))
   \<and> length (segmentsRef (buildSegments s rnd st))
       = length (segmentsRef (buildSegments s rnd' st))
   \<and> (randomness s = 0 \<longrightarrow>
        segmentsRef (buildSegments s rnd st) = segmentsRef (buildSegments s rnd' st))
   \<and> (0 \<le> randomness s \<and> 0 \<le> rnd i \<and> rnd i < 1 \<longrightarrow>
        \<bar>randomAngle s (rnd i)\<bar> \<le> randomness s)"
proof -
  have pre: "(let sg = pushedSegment s rnd td x y len a dl th n;
           L = emitted s rnd td (x2 sg) (y2 sg) (len * shrink s) (a - angle s) (dl - 1)
                 (th * 0.75) (Suc n);
           R = emitted s rnd td (x2 sg) (y2 sg) (len * shrink s) (a + angle s) (dl - 1)
                 (th * 0.75) (Suc n + length L)
       in collect s rnd td x y len a dl th (segs, n)
            = (segs @ sg # L @ R, n + (1 + length L + length R)))"
    if ns: "\<not> (dl \<le> 0 \<or> len < 2)"
    using emitted_step[OF ns, of s rnd td x y a th n]
    by (simp add: collect_acc[of s rnd td x y len a dl th segs n] Let_def)
  have shp: "map shape (segmentsRef (buildSegments s rnd st))
       = map shape (segmentsRef (buildSegments s rnd' st))"
  proof (cases "\<exists>c. canvasRef st = Some c \<and> has2d c")
    case True
    then obtain c where "canvasRef st = Some c" "has2d c" by blast
    then show ?thesis by (simp add: buildSegments_canvas shape_emitted[of s rnd _ _ _ _ _ _ _ _ rnd'])
  next
    case False
    then have "canvasRef st = None \<or> (\<exists>c. canvasRef st = Some c \<and> \<not> has2d c)"
      by (cases "canvasRef st") auto
    then show ?thesis by (simp add: buildSegments_no_canvas)
  qed
  have len: "length (segmentsRef (buildSegments s rnd st))
       = length (segmentsRef (buildSegments s rnd' st))"
    using shp by (rule map_eq_imp_length_eq)
  have det: "segmentsRef (buildSegments s rnd st) = segmentsRef (buildSegments s rnd' st)"
    if z: "randomness s = 0"
  proof (cases "\<exists>c. canvasRef st = Some c \<and> has2d c")
    case True
    then obtain c where "canvasRef st = Some c" "has2d c" by blast
    then show ?thesis
      by (simp add: buildSegments_canvas emitted_no_randomness[OF z, of rnd _ _ _ _ _ _ _ _ rnd'])
  next
    case False
    then have "canvasRef st = None \<or> (\<exists>c. canvasRef st = Some c \<and> \<not> has2d c)"
      by (cases "canvasRef st") auto
    then show ?thesis by (simp add: buildSegments_no_canvas)
  qed
  have link: "segmentsRef (buildSegments s rnd st)
          = fst (collect s rnd (depth s) (width c / 2) (height c - 20) (length_s s) 90
                   (depth s) (thickness s) ([], 0))"
    if "canvasRef st = Some c" "has2d c"
    using that by (simp add: buildSegments_canvas emitted_def[symmetric])
  have top: "(let root = pushedSegment s rnd (depth s) (width c / 2) (height c - 20) (length_s s)
                      90 (depth s) (thickness s) 0;
             L = emitted s rnd (depth s) (x2 root) (y2 root) (length_s s * shrink s)
                   (90 - angle s) (depth s - 1) (thickness s * 0.75) (Suc 0);
             R = emitted s rnd (depth s) (x2 root) (y2 root) (length_s s * shrink s)
                   (90 + angle s) (depth s - 1) (thickness s * 0.75) (Suc 0 + length L)
         in segmentsRef (buildSegments s rnd st) = root # L @ R)"
    if cv: "canvasRef st = Some c" "has2d c" and ns: "\<not> (depth s \<le> 0 \<or> length_s s < 2)"
    using emitted_step[OF ns, of s rnd "depth s" "width c / 2" "height c - 20" 90 "thickness s" 0]
    by (simp add: buildSegments_canvas[OF cv] Let_def)
  show ?thesis using pre link top shp len det randomAngle_bound by blast
qed

theorem segments_in_preorder_witness:
  "\<not> ((2::int) \<le> 0 \<or> (150::real) < 2)
   \<and> collect twoLevelSettings (\<lambda>i. 1 / 2) 2 500 630 150 90 2 10 ([], 0)
       = ([\<lparr>x1 = 500, y1 = 630, x2 = 500, y2 = 480, thick = 10, depthLeft = 2,
            totalDepth = 2\<rparr>,
           pushedSegment twoLevelSettings (\<lambda>i. 1 / 2) 2 500 480 (150 * 0.67) (90 - 25) 1
             (10 * 0.75) 1,
           pushedSegment twoLevelSettings (\<lambda>i. 1 / 2) 2 500 480 (150 * 0.67) (90 + 25) 1
             (10 * 0.75) 2], 3)
   \<and> canvasRef initialState = Some pageCanvas \<and> has2d pageCanvas
   \<and> \<not> (depth twoLevelSettings \<le> 0 \<or> length_s twoLevelSettings < 2)
   \<and> segmentsRef (buildSegments twoLevelSettings (\<lambda>i. 1 / 2) initialState)
       = fst (collect twoLevelSettings (\<lambda>i. 1 / 2) 2 500 630 150 90 2 10 ([], 0))
   \<and> segmentsRef (buildSegments twoLevelSettings (\<lambda>i. 1 / 2) initialState)
       = [\<lparr>x1 = 500, y1 = 630, x2 = 500, y2 = 480, thick = 10, depthLeft = 2,
           totalDepth = 2\<rparr>,
          pushedSegment twoLevelSettings (\<lambda>i. 1 / 2) 2 500 480 (150 * 0.67) (90 - 25) 1
            (10 * 0.75) 1,
          pushedSegment twoLevelSettings (\<lambda>i. 1 / 2) 2 500 480 (150 * 0.67) (90 + 25) 1
            (10 * 0.75) 2]
   \<and> map shape (segmentsRef (buildSegments defaultSettings (\<lambda>i. 1 / 2) initialState))
       = map shape (segmentsRef (buildSegments defaultSettings (\<lambda>i. 0) initialState))
   \<and> randomness twoLevelSettings = 0
   \<and> segmentsRef (buildSegments twoLevelSettings (\<lambda>i. 1 / 2) initialState)
       = segmentsRef (buildSegments twoLevelSettings (\<lambda>i. 0) initialState)
   \<and> 0 \<le> randomness defaultSettings \<and> (0::real) \<le> 1 / 4 \<and> (1 / 4 :: real) < 1
   \<and> \<bar>randomAngle defaultSettings (1 / 4)\<bar> \<le> randomness defaultSettings"
proof -
  have f: "shrink twoLevelSettings = 0.67" "angle twoLevelSettings = 25"
    "randomness twoLevelSettings = 0" "0 \<le> randomness defaultSettings"
    by (simp_all add: twoLevelSettings_def defaultSettings_def)
  have root: "pushedSegment twoLevelSettings (\<lambda>i. 1 / 2) 2 500 630 150 90 2 10 0
     = \<lparr>x1 = 500, y1 = 630, x2 = 500, y2 = 480, thick = 10, depthLeft = 2, totalDepth = 2\<rparr>"
    by (simp add: pushedSegment_def randomAngle_def cos_sin_quarter)
  have n1: "\<not> ((1::int) \<le> 0 \<or> (201::real) / 2 < 2)" by simp
  have child: "emitted twoLevelSettings (\<lambda>i. 1 / 2) 2 500 480 (201 / 2) a 1 (15 / 2) n
               = [pushedSegment twoLevelSettings (\<lambda>i. 1 / 2) 2 500 480 (201 / 2) a 1
                    (15 / 2) n]" for a n
    by (subst emitted_step[OF n1]) (simp add: Let_def emitted_stop)
  have c: "collect twoLevelSettings (\<lambda>i. 1 / 2) 2 500 630 150 90 2 10 ([], 0)
       = ([\<lparr>x1 = 500, y1 = 630, x2 = 500, y2 = 480, thick = 10, depthLeft = 2,
            totalDepth = 2\<rparr>,
           pushedSegment twoLevelSettings (\<lambda>i. 1 / 2) 2 500 480 (150 * 0.67) (90 - 25) 1
             (10 * 0.75) 1,
           pushedSegment twoLevelSettings (\<lambda>i. 1 / 2) 2 500 480 (150 * 0.67) (90 + 25) 1
             (10 * 0.75) 2], 3)"
    using segments_in_preorder[where s = twoLevelSettings and rnd = "\<lambda>i. 1 / 2" and td = 2
        and x = 500 and y = 630 and len = 150 and a = 90 and dl = 2 and th = 10 and n = 0
        and segs = "[]"]
    by (simp add: Let_def root f child numeral_2_eq_2)
  have r: "\<bar>randomAngle defaultSettings (1 / 4)\<bar> \<le> randomness defaultSettings"
    using segments_in_preorder[where s = defaultSettings and rnd = "\<lambda>i. 1 / 4" and i = 0] f(4)
    by simp
  have cv: "canvasRef initialState = Some pageCanvas" "has2d pageCanvas"
    and ns: "\<not> (depth twoLevelSettings \<le> 0 \<or> length_s twoLevelSettings < 2)"
    and g: "depth twoLevelSettings = 2" "length_s twoLevelSettings = 150"
      "thickness twoLevelSettings = 10" "width pageCanvas = 1000" "height pageCanvas = 650"
    by (simp_all add: initialState_def pageCanvas_def twoLevelSettings_def defaultSettings_def)
  have b: "segmentsRef (buildSegments twoLevelSettings (\<lambda>i. 1 / 2) initialState)
       = fst (collect twoLevelSettings (\<lambda>i. 1 / 2) 2 500 630 150 90 2 10 ([], 0))"
    using segments_in_preorder[where s = twoLevelSettings and rnd = "\<lambda>i. 1 / 2"
        and st = initialState and c = pageCanvas] cv
    by (simp add: g)
  have b': "segmentsRef (buildSegments twoLevelSettings (\<lambda>i. 1 / 2) initialState)
       = [\<lparr>x1 = 500, y1 = 630, x2 = 500, y2 = 480, thick = 10, depthLeft = 2,
           totalDepth = 2\<rparr>,
          pushedSegment twoLevelSettings (\<lambda>i. 1 / 2) 2 500 480 (150 * 0.67) (90 - 25) 1
            (10 * 0.75) 1,
          pushedSegment twoLevelSettings (\<lambda>i. 1 / 2) 2 500 480 (150 * 0.67) (90 + 25) 1
            (10 * 0.75) 2]"
    unfolding b c by simp
  have sh: "map shape (segmentsRef (buildSegments defaultSettings (\<lambda>i. 1 / 2) initialState))
       = map shape (segmentsRef (buildSegments defaultSettings (\<lambda>i. 0) initialState))"
    using segments_in_preorder[where s = defaultSettings and rnd = "\<lambda>i. 1 / 2"
        and rnd' = "\<lambda>i. 0" and st = initialState]
    by blast
  have dt: "segmentsRef (buildSegments twoLevelSettings (\<lambda>i. 1 / 2) initialState)
       = segmentsRef (buildSegments twoLevelSettings (\<lambda>i. 0) initialState)"
    using segments_in_preorder[where s = twoLevelSettings and rnd = "\<lambda>i. 1 / 2"
        and rnd' = "\<lambda>i. 0" and st = initialState] f(3)
    by blast
  show ?thesis
    using c r f(3,4) cv ns b b' sh dt by (intro conjI) simp_all
qed

end
